theory Spec2Isabelle
  imports Complex_Main "HOL-Library.Code_Target_Nat"
begin

section \<open>Platform: strings\<close>

text \<open>
  A string of the program is modelled as the list of bytes of its UTF-8 encoding.
  \<open>white_space\<close> lists the encodings of the code points that ECMAScript's
  \<open>String.prototype.trim\<close> strips: the WhiteSpace code points (TAB, VT, FF, SP, NBSP,
  ZWNBSP and the category Zs: U+1680, U+2000 to U+200A, U+202F, U+205F, U+3000) and the
  LineTerminator code points (LF, CR, U+2028, U+2029).
\<close>

definition white_space :: "string list" where
  "white_space =
    [[CHR 0x09], [CHR 0x0A], [CHR 0x0B], [CHR 0x0C], [CHR 0x0D], [CHR 0x20],
     [CHR 0xC2, CHR 0xA0],
     [CHR 0xE1, CHR 0x9A, CHR 0x80],
     [CHR 0xE2, CHR 0x80, CHR 0x80], [CHR 0xE2, CHR 0x80, CHR 0x81],
     [CHR 0xE2, CHR 0x80, CHR 0x82], [CHR 0xE2, CHR 0x80, CHR 0x83],
     [CHR 0xE2, CHR 0x80, CHR 0x84], [CHR 0xE2, CHR 0x80, CHR 0x85],
     [CHR 0xE2, CHR 0x80, CHR 0x86], [CHR 0xE2, CHR 0x80, CHR 0x87],
     [CHR 0xE2, CHR 0x80, CHR 0x88], [CHR 0xE2, CHR 0x80, CHR 0x89],
     [CHR 0xE2, CHR 0x80, CHR 0x8A],
     [CHR 0xE2, CHR 0x80, CHR 0xA8], [CHR 0xE2, CHR 0x80, CHR 0xA9],
     [CHR 0xE2, CHR 0x80, CHR 0xAF],
     [CHR 0xE2, CHR 0x81, CHR 0x9F],
     [CHR 0xE3, CHR 0x80, CHR 0x80],
     [CHR 0xEF, CHR 0xBB, CHR 0xBF]]"

text \<open>The number of bytes of the white space code point a string starts (ends) with;
  0 when it starts (ends) with none.\<close>

definition leading_space :: "string \<Rightarrow> nat" where
  "leading_space s =
     (case filter (\<lambda>w. take (length w) s = w) white_space of
        [] \<Rightarrow> 0
      | w # _ \<Rightarrow> length w)"

definition trailing_space :: "string \<Rightarrow> nat" where
  "trailing_space s =
     (case filter (\<lambda>w. length w \<le> length s \<and> drop (length s - length w) s = w) white_space of
        [] \<Rightarrow> 0
      | w # _ \<Rightarrow> length w)"

lemma white_space_nonempty: "w \<in> set white_space \<Longrightarrow> w \<noteq> []"
  by (auto simp: white_space_def)

lemma leading_space_pos: "leading_space s \<noteq> 0 \<Longrightarrow> s \<noteq> []"
proof
  assume pos: "leading_space s \<noteq> 0" and "s = []"
  then have "filter (\<lambda>w. take (length w) s = w) white_space = []"
    by (auto simp: filter_empty_conv dest: white_space_nonempty)
  then have "leading_space s = 0" by (simp add: leading_space_def)
  with pos show False by simp
qed

lemma trailing_space_pos: "trailing_space s \<noteq> 0 \<Longrightarrow> s \<noteq> []"
proof
  assume pos: "trailing_space s \<noteq> 0" and "s = []"
  then have "filter (\<lambda>w. length w \<le> length s \<and> drop (length s - length w) s = w) white_space = []"
    by (auto simp: filter_empty_conv dest: white_space_nonempty)
  then have "trailing_space s = 0" by (simp add: trailing_space_def)
  with pos show False by simp
qed

function trimStart :: "string \<Rightarrow> string" where
  "trimStart s = (if leading_space s = 0 then s else trimStart (drop (leading_space s) s))"
  by pat_completeness auto
termination
proof (relation "measure length")
  show "wf (measure length)" by simp
next
  fix s :: string
  assume pos: "leading_space s \<noteq> 0"
  then have "s \<noteq> []" by (rule leading_space_pos)
  with pos show "(drop (leading_space s) s, s) \<in> measure length" by simp
qed

function trimEnd :: "string \<Rightarrow> string" where
  "trimEnd s = (if trailing_space s = 0 then s else trimEnd (take (length s - trailing_space s) s))"
  by pat_completeness auto
termination
proof (relation "measure length")
  show "wf (measure length)" by simp
next
  fix s :: string
  assume pos: "trailing_space s \<noteq> 0"
  then have "s \<noteq> []" by (rule trailing_space_pos)
  with pos show "(take (length s - trailing_space s) s, s) \<in> measure length" by simp
qed

declare trimStart.simps [simp del] trimEnd.simps [simp del]

text \<open>\<open>String.prototype.trim\<close>.\<close>

definition trim :: "string \<Rightarrow> string" where
  "trim s = trimEnd (trimStart s)"

text \<open>The operator \<open>||\<close> on a string and a default: the empty string is falsy.\<close>

definition or_else :: "string \<Rightarrow> string \<Rightarrow> string" where
  "or_else s d = (if s = [] then d else s)"


section \<open>Platform: numbers\<close>

text \<open>
  A Number is an IEEE 754 binary64 value. A finite one is modelled by the rational it
  denotes (the two zeros are one value: multiplication, comparison, \<open>Math.round\<close> followed
  by printing do not tell them apart). \<open>to_double\<close> rounds a rational to the nearest
  binary64 value, ties to the even significand, as every arithmetic operation and every
  numeric literal does.
\<close>

datatype number = Finite rat | PosInfinity | NegInfinity | NaN

fun bit_count :: "nat \<Rightarrow> nat" where
  "bit_count n = (if n = 0 then 0 else Suc (bit_count (n div 2)))"

fun digit_count :: "nat \<Rightarrow> nat" where
  "digit_count n = (if n = 0 then 0 else Suc (digit_count (n div 10)))"

declare bit_count.simps [simp del] digit_count.simps [simp del]

definition pow2 :: "int \<Rightarrow> rat" where
  "pow2 k = (if 0 \<le> k then 2 ^ nat k else 1 / 2 ^ nat (- k))"

definition pow10 :: "int \<Rightarrow> rat" where
  "pow10 k = (if 0 \<le> k then 10 ^ nat k else 1 / 10 ^ nat (- k))"

text \<open>For \<open>q > 0\<close>: the integer \<open>e\<close> with \<open>2 ^ e \<le> q < 2 ^ (e + 1)\<close>, and the same in base 10.\<close>

definition ilog2 :: "rat \<Rightarrow> int" where
  "ilog2 q = (if 1 \<le> q then int (bit_count (nat \<lfloor>q\<rfloor>)) - 1
              else - int (bit_count (nat (\<lceil>1 / q\<rceil> - 1))))"

definition ilog10 :: "rat \<Rightarrow> int" where
  "ilog10 q = (if 1 \<le> q then int (digit_count (nat \<lfloor>q\<rfloor>)) - 1
               else - int (digit_count (nat (\<lceil>1 / q\<rceil> - 1))))"

definition round_half_even :: "rat \<Rightarrow> int" where
  "round_half_even x =
     (let f = \<lfloor>x\<rfloor>; d = x - of_int f
      in if d < 1 / 2 then f else if 1 / 2 < d then f + 1 else if even f then f else f + 1)"

definition to_double :: "rat \<Rightarrow> number" where
  "to_double q =
     (if q = 0 then Finite 0
      else let a = \<bar>q\<bar>;
               e = max (ilog2 a) (- 1022);
               ulp = pow2 (e - 52);
               v = of_int (round_half_even (a / ulp)) * ulp
           in if pow2 1024 \<le> v then (if 0 < q then PosInfinity else NegInfinity)
              else Finite (if 0 < q then v else - v))"

text \<open>The operator \<open>*\<close>.\<close>

fun number_times :: "number \<Rightarrow> number \<Rightarrow> number" where
  "number_times (Finite a) (Finite b) = to_double (a * b)"
| "number_times NaN _ = NaN"
| "number_times _ NaN = NaN"
| "number_times (Finite a) PosInfinity =
     (if a = 0 then NaN else if 0 < a then PosInfinity else NegInfinity)"
| "number_times (Finite a) NegInfinity =
     (if a = 0 then NaN else if 0 < a then NegInfinity else PosInfinity)"
| "number_times PosInfinity (Finite b) =
     (if b = 0 then NaN else if 0 < b then PosInfinity else NegInfinity)"
| "number_times NegInfinity (Finite b) =
     (if b = 0 then NaN else if 0 < b then NegInfinity else PosInfinity)"
| "number_times PosInfinity PosInfinity = PosInfinity"
| "number_times NegInfinity NegInfinity = PosInfinity"
| "number_times PosInfinity NegInfinity = NegInfinity"
| "number_times NegInfinity PosInfinity = NegInfinity"

text \<open>The operators \<open>>=\<close> and \<open><\<close>: a comparison with NaN is false.\<close>

fun number_ge :: "number \<Rightarrow> number \<Rightarrow> bool" where
  "number_ge (Finite a) (Finite b) = (b \<le> a)"
| "number_ge NaN _ = False"
| "number_ge _ NaN = False"
| "number_ge PosInfinity _ = True"
| "number_ge _ NegInfinity = True"
| "number_ge (Finite a) PosInfinity = False"
| "number_ge NegInfinity _ = False"

fun number_less :: "number \<Rightarrow> number \<Rightarrow> bool" where
  "number_less (Finite a) (Finite b) = (a < b)"
| "number_less NaN _ = False"
| "number_less _ NaN = False"
| "number_less PosInfinity _ = False"
| "number_less _ NegInfinity = False"
| "number_less (Finite a) PosInfinity = True"
| "number_less NegInfinity _ = True"

text \<open>\<open>Math.round\<close>: the nearest integer, a tie going up.\<close>

fun Math_round :: "number \<Rightarrow> number" where
  "Math_round (Finite x) = Finite (of_int \<lfloor>x + 1 / 2\<rfloor>)"
| "Math_round n = n"

text \<open>
  \<open>Number::toString\<close> (radix 10), as a template literal applies it: the digits \<open>s\<close>
  (\<open>k\<close> of them, \<open>k\<close> as small as possible) and the exponent \<open>n\<close> with \<open>s * 10 ^ (n - k)\<close>
  rounding to the number, the closest such \<open>s\<close>, the even one on a tie; then the layout by
  the size of \<open>n\<close>. Seventeen digits tell any two binary64 values apart.
\<close>

fun decimal :: "nat \<Rightarrow> string" where
  "decimal n = (if n < 10 then [char_of (48 + n)]
                else decimal (n div 10) @ [char_of (48 + n mod 10)])"

declare decimal.simps [simp del]

definition candidates :: "rat \<Rightarrow> nat \<Rightarrow> (int \<times> int) list" where
  "candidates x k =
     concat (map (\<lambda>n. concat (map (\<lambda>s.
         if 10 ^ (k - 1) \<le> s \<and> s < 10 ^ k \<and> to_double (of_int s * pow10 (n - int k)) = Finite x
         then [(n, s)] else [])
       [\<lfloor>x / pow10 (n - int k)\<rfloor>, \<lceil>x / pow10 (n - int k)\<rceil>]))
     [ilog10 x + 1, ilog10 x + 2])"

definition closer :: "rat \<Rightarrow> nat \<Rightarrow> int \<times> int \<Rightarrow> int \<times> int \<Rightarrow> int \<times> int" where
  "closer x k c d =
     (let dc = \<bar>of_int (snd c) * pow10 (fst c - int k) - x\<bar>;
          dd = \<bar>of_int (snd d) * pow10 (fst d - int k) - x\<bar>
      in if dc < dd then c else if dd < dc then d else if even (snd c) then c else d)"

fun shortest :: "rat \<Rightarrow> nat list \<Rightarrow> (nat \<times> int \<times> int) option" where
  "shortest x [] = None"
| "shortest x (k # ks) =
     (case candidates x k of
        [] \<Rightarrow> shortest x ks
      | c # cs \<Rightarrow> Some (k, foldl (closer x k) c cs))"

definition exponent_part :: "int \<Rightarrow> string" where
  "exponent_part e =
     (if 0 \<le> e then ''e+'' @ decimal (nat e) else ''e-'' @ decimal (nat (- e)))"

definition format_digits :: "nat \<Rightarrow> int \<Rightarrow> string \<Rightarrow> string" where
  "format_digits k n ds =
     (if int k \<le> n \<and> n \<le> 21 then ds @ replicate (nat (n - int k)) CHR ''0''
      else if 0 < n \<and> n \<le> 21 then take (nat n) ds @ ''.'' @ drop (nat n) ds
      else if - 6 < n \<and> n \<le> 0 then ''0.'' @ replicate (nat (- n)) CHR ''0'' @ ds
      else if k = 1 then ds @ exponent_part (n - 1)
      else take 1 ds @ ''.'' @ drop 1 ds @ exponent_part (n - 1))"

definition positive_toString :: "rat \<Rightarrow> string" where
  "positive_toString x =
     (case shortest x [1 ..< 18] of
        None \<Rightarrow> []
      | Some (k, n, s) \<Rightarrow> format_digits k n (decimal (nat s)))"

fun Number_toString :: "number \<Rightarrow> string" where
  "Number_toString NaN = ''NaN''"
| "Number_toString PosInfinity = ''Infinity''"
| "Number_toString NegInfinity = ''-Infinity''"
| "Number_toString (Finite x) =
     (if x = 0 then ''0''
      else if x < 0 then ''-'' @ positive_toString (- x)
      else positive_toString x)"


section \<open>Data model\<close>

text \<open>
  JSON values, for the request payloads (\<open>unknown\<close> in the source). \<open>JSON.parse\<close> is a
  parameter of the model: a function from the text to the value, \<open>None\<close> when it throws
  a SyntaxError.
\<close>

datatype json =
    JNull
  | JBool bool
  | JNumber number
  | JString string
  | JArray "json list"
  | JObject "(string \<times> json) list"

text \<open>
  \<open>JSON.stringify\<close>, given by the value that the text it produces denotes: a number
  that is not finite is written \<open>null\<close>, everything else is written as it is. The pairs
  of a \<open>JObject\<close> are in the order in which the properties of the object are enumerated.
\<close>

primrec JSON_stringify :: "json \<Rightarrow> json" where
  "JSON_stringify JNull = JNull"
| "JSON_stringify (JBool b) = JBool b"
| "JSON_stringify (JNumber n) = (case n of Finite x \<Rightarrow> JNumber (Finite x) | _ \<Rightarrow> JNull)"
| "JSON_stringify (JString s) = JString s"
| "JSON_stringify (JArray xs) = JArray (map JSON_stringify xs)"
| "JSON_stringify (JObject kvs) = JObject (map (map_prod id JSON_stringify) kvs)"

text \<open>
  The response types, as \<open>App.tsx\<close> declares them. An optional field is an \<open>option\<close>.
  \<open>compliance_rate\<close> is an \<open>option\<close> as well, \<open>None\<close> standing for a body whose field is
  missing or is not a number: the component tests \<open>typeof ... === "number"\<close> before it
  uses the field.
\<close>

record RiskContributor =
  feature :: string
  impact :: number

datatype risk_band_t = Low | Medium | High

record BrainResponse =
  risk_score :: number
  risk_band :: risk_band_t
  top_contributors :: "RiskContributor list"

record VisionDetection =
  cls :: string
  bbox :: "number \<times> number \<times> number \<times> number"
  conf :: number

record VisionResponse =
  detections :: "VisionDetection list"
  persons :: number
  helmeted_persons :: number
  compliance_rate :: "number option"
  overlay_url :: "string option"

record ScribeIssue =
  issue_type :: string
  summary :: string

record ScribeResponse =
  date :: "string option"
  project :: "string option"
  location :: "string option"
  subcontractors :: "string list option"
  personnel_count :: "number option"
  completed_tasks :: "string list option"
  issues :: "ScribeIssue list option"
  safety_observations :: "string list option"
  low_confidence :: "bool option"
  confidence :: "(string \<times> number) list option"
  export_csv_url :: "string option"

text \<open>A file chosen in a file input: its name and its bytes.\<close>

datatype File = File (name: string) (bytes: string)

subsection \<open>The network\<close>

text \<open>
  A promise settles with a value, settles with an error, or never settles.
  A response has its \<open>ok\<close> flag and the promises that \<open>text()\<close> and \<open>json()\<close> return;
  \<open>json()\<close> yields \<open>None\<close> for the body \<open>null\<close> and otherwise a value of the type the
  source casts it to.
\<close>

datatype js_error = Error string | TypeError string | SyntaxError string

datatype 'a promise = Resolves 'a | Rejects js_error | Never

datatype 'a response =
  Response (ok: bool) (text_body: "string promise") (json_body: "'a option promise")

text \<open>A request body: \<open>JsonBody v\<close> is a JSON text denoting \<open>v\<close>, \<open>FormData\<close> a multipart form.\<close>

datatype request_body = JsonBody json | FormData "(string \<times> File) list"

record request =
  url :: string
  http_method :: string
  headers :: "(string \<times> string) list"
  body :: request_body

type_synonym 'a network = "request \<Rightarrow> 'a response promise"

subsection \<open>Component state and effects\<close>

datatype panel = Brain | Vision | Scribe

text \<open>
  The state cells of \<open>App\<close> (\<open>useState\<close>), and the first file of each file input
  (\<open>visionFileRef.current?.files?.[0]\<close>, \<open>scribeFileRef.current?.files?.[0]\<close>).
\<close>

record app_state =
  busy :: "panel option"
  brainJson :: string
  brainResult :: "BrainResponse option"
  visionResult :: "VisionResponse option"
  visionOverlay :: "string option"
  visionFileName :: string
  visionFile :: "File option"
  scribeText :: string
  scribeResult :: "ScribeResponse option"
  scribeFile :: "File option"

text \<open>What a handler does to the world outside the state, in order.\<close>

datatype effect =
    PreventDefault
  | Alert string
  | ConsoleError js_error
  | Fetch request

definition requests :: "effect list \<Rightarrow> request list" where
  "requests es = concat (map (\<lambda>e. case e of Fetch r \<Rightarrow> [r] | _ \<Rightarrow> []) es)"

definition alerts :: "effect list \<Rightarrow> string list" where
  "alerts es = concat (map (\<lambda>e. case e of Alert m \<Rightarrow> [m] | _ \<Rightarrow> []) es)"

section \<open>The component\<close>

text \<open>
  \<open>API_BASE = import.meta.env.VITE_API_BASE?.toString() || "http://localhost:8000"\<close>;
  the argument is the configured value, \<open>None\<close> when the variable is not set.
\<close>

definition API_BASE :: "string option \<Rightarrow> string" where
  "API_BASE env =
     (case env of
        None \<Rightarrow> ''http://localhost:8000''
      | Some v \<Rightarrow> or_else v ''http://localhost:8000'')"

text \<open>
  The three statements every handler runs inside \<open>try\<close>:
  \<open>const response = await fetch(...); if (!response.ok) throw new Error(await response.text());
  const data = await response.json()\<close>. The result is how they complete: with \<open>data\<close>,
  with a thrown error, or never.
\<close>

definition read_json :: "'a response promise \<Rightarrow> 'a option promise" where
  "read_json p =
     (case p of
        Never \<Rightarrow> Never
      | Rejects e \<Rightarrow> Rejects e
      | Resolves r \<Rightarrow>
          if \<not> ok r then
            (case text_body r of
               Never \<Rightarrow> Never
             | Rejects e \<Rightarrow> Rejects e
             | Resolves t \<Rightarrow> Rejects (Error t))
          else json_body r)"

subsection \<open>submitBrain\<close>

definition brain_request :: "string option \<Rightarrow> json \<Rightarrow> request" where
  "brain_request env payload =
     \<lparr>url = API_BASE env @ ''/predict-delay'',
      http_method = ''POST'',
      headers = [(''Content-Type'', ''application/json'')],
      body = JsonBody (JSON_stringify payload)\<rparr>"

definition submitBrain ::
  "string option \<Rightarrow> (string \<Rightarrow> json option) \<Rightarrow> BrainResponse network \<Rightarrow> app_state
     \<Rightarrow> effect list \<times> app_state" where
  "submitBrain env JSON_parse net st =
     (case JSON_parse (or_else (brainJson st) ''{}'') of
        None \<Rightarrow>
          ([PreventDefault, Alert ''JSON is invalid. Please fix the payload and try again.''], st)
      | Some payload \<Rightarrow>
          (let req = brain_request env payload;
               st1 = st\<lparr>busy := Some Brain\<rparr>
           in case read_json (net req) of
                Never \<Rightarrow> ([PreventDefault, Fetch req], st1)
              | Resolves data \<Rightarrow>
                  ([PreventDefault, Fetch req], st1\<lparr>brainResult := data, busy := None\<rparr>)
              | Rejects e \<Rightarrow>
                  ([PreventDefault, Fetch req, ConsoleError e,
                    Alert ''Unable to score the project right now. Check the backend.''],
                   st1\<lparr>busy := None\<rparr>)))"

subsection \<open>submitVision\<close>

definition vision_request :: "string option \<Rightarrow> File \<Rightarrow> request" where
  "vision_request env f =
     \<lparr>url = API_BASE env @ ''/analyze-image'',
      http_method = ''POST'',
      headers = [],
      body = FormData [(''file'', f)]\<rparr>"

text \<open>\<open>data?.overlay_url ? `${API_BASE}${data.overlay_url}` : null\<close>.\<close>

definition resolve_overlay :: "string option \<Rightarrow> VisionResponse option \<Rightarrow> string option" where
  "resolve_overlay env data =
     (case data of
        None \<Rightarrow> None
      | Some d \<Rightarrow>
          (case overlay_url d of
             None \<Rightarrow> None
           | Some u \<Rightarrow> if u = [] then None else Some (API_BASE env @ u)))"

definition submitVision ::
  "string option \<Rightarrow> VisionResponse network \<Rightarrow> app_state \<Rightarrow> effect list \<times> app_state" where
  "submitVision env net st =
     (case visionFile st of
        None \<Rightarrow> ([PreventDefault, Alert ''Please choose an image file first.''], st)
      | Some f \<Rightarrow>
          (let req = vision_request env f;
               st1 = st\<lparr>busy := Some Vision\<rparr>
           in case read_json (net req) of
                Never \<Rightarrow> ([PreventDefault, Fetch req], st1)
              | Resolves data \<Rightarrow>
                  ([PreventDefault, Fetch req],
                   st1\<lparr>visionResult := data,
                       visionOverlay := resolve_overlay env data,
                       visionFileName := name f,
                       busy := None\<rparr>)
              | Rejects e \<Rightarrow>
                  ([PreventDefault, Fetch req, ConsoleError e,
                    Alert ''Unable to analyse the image. Please check the backend logs.''],
                   st1\<lparr>busy := None\<rparr>)))"

subsection \<open>submitScribeFile and submitScribeText\<close>

definition scribe_file_request :: "string option \<Rightarrow> File \<Rightarrow> request" where
  "scribe_file_request env f =
     \<lparr>url = API_BASE env @ ''/extract'',
      http_method = ''POST'',
      headers = [],
      body = FormData [(''file'', f)]\<rparr>"

definition submitScribeFile ::
  "string option \<Rightarrow> ScribeResponse network \<Rightarrow> app_state \<Rightarrow> effect list \<times> app_state" where
  "submitScribeFile env net st =
     (case scribeFile st of
        None \<Rightarrow> ([PreventDefault, Alert ''Please select a PDF or text file.''], st)
      | Some f \<Rightarrow>
          (let req = scribe_file_request env f;
               st1 = st\<lparr>busy := Some Scribe\<rparr>
           in case read_json (net req) of
                Never \<Rightarrow> ([PreventDefault, Fetch req], st1)
              | Resolves data \<Rightarrow>
                  ([PreventDefault, Fetch req], st1\<lparr>scribeResult := data, busy := None\<rparr>)
              | Rejects e \<Rightarrow>
                  ([PreventDefault, Fetch req, ConsoleError e,
                    Alert ''File extraction failed. Check the backend service.''],
                   st1\<lparr>busy := None\<rparr>)))"

definition scribe_text_request :: "string option \<Rightarrow> string \<Rightarrow> request" where
  "scribe_text_request env t =
     \<lparr>url = API_BASE env @ ''/extract'',
      http_method = ''POST'',
      headers = [(''Content-Type'', ''application/json'')],
      body = JsonBody (JSON_stringify (JObject [(''text'', JString t)]))\<rparr>"

definition submitScribeText ::
  "string option \<Rightarrow> ScribeResponse network \<Rightarrow> app_state \<Rightarrow> effect list \<times> app_state" where
  "submitScribeText env net st =
     (if trim (scribeText st) = [] then ([PreventDefault], st)
      else
        (let req = scribe_text_request env (scribeText st);
             st1 = st\<lparr>busy := Some Scribe\<rparr>
         in case read_json (net req) of
              Never \<Rightarrow> ([PreventDefault, Fetch req], st1)
            | Resolves data \<Rightarrow>
                ([PreventDefault, Fetch req], st1\<lparr>scribeResult := data, busy := None\<rparr>)
            | Rejects e \<Rightarrow>
                ([PreventDefault, Fetch req, ConsoleError e,
                  Alert ''Text extraction failed. Please retry once the backend is ready.''],
                 st1\<lparr>busy := None\<rparr>)))"

subsection \<open>What the component renders\<close>

datatype tone = tone_ok | tone_warn | tone_bad

text \<open>\<open>compliancePct\<close> and \<open>complianceTone\<close>; \<open>None\<close> is \<open>null\<close>, respectively \<open>undefined\<close>.\<close>

definition compliancePct :: "app_state \<Rightarrow> number option" where
  "compliancePct st =
     (case visionResult st of
        None \<Rightarrow> None
      | Some d \<Rightarrow>
          (case compliance_rate d of
             None \<Rightarrow> None
           | Some r \<Rightarrow> Some (Math_round (number_times r (Finite 100)))))"

definition complianceTone :: "app_state \<Rightarrow> tone option" where
  "complianceTone st =
     (case compliancePct st of
        None \<Rightarrow> None
      | Some pct \<Rightarrow>
          Some (if number_ge pct (Finite 90) then tone_ok
                else if number_ge pct (Finite 70) then tone_warn
                else tone_bad))"

text \<open>The percentage of the summary card and of the imagery panel, and the label of the pill.\<close>

definition compliance_card_text :: "app_state \<Rightarrow> string" where
  "compliance_card_text st =
     (case compliancePct st of
        Some pct \<Rightarrow> Number_toString pct @ ''%''
      | None \<Rightarrow> ''84%'')"

definition compliance_panel_text :: "app_state \<Rightarrow> string option" where
  "compliance_panel_text st =
     (case visionResult st of
        None \<Rightarrow> None
      | Some _ \<Rightarrow>
          Some (case compliancePct st of
                  Some pct \<Rightarrow> Number_toString pct @ ''%''
                | None \<Rightarrow> ''--''))"

definition compliance_pill_label :: "app_state \<Rightarrow> string" where
  "compliance_pill_label st =
     (if compliancePct st = None then ''Awaiting data''
      else if complianceTone st = Some tone_ok then ''On Track''
      else if complianceTone st = Some tone_warn then ''Monitor''
      else ''Critical'')"

text \<open>The overlay area: the image when \<open>visionOverlay\<close> is truthy, a placeholder otherwise.\<close>

datatype overlay_view = Img string | NoOverlayYet

definition overlay_area :: "app_state \<Rightarrow> overlay_view" where
  "overlay_area st =
     (case visionOverlay st of
        None \<Rightarrow> NoOverlayYet
      | Some src \<Rightarrow> if src = [] then NoOverlayYet else Img src)"

text \<open>The \<open>href\<close> of the download link, \<open>None\<close> when the link is not rendered.\<close>

definition export_link :: "string option \<Rightarrow> app_state \<Rightarrow> string option" where
  "export_link env st =
     (case scribeResult st of
        None \<Rightarrow> None
      | Some r \<Rightarrow>
          (case export_csv_url r of
             None \<Rightarrow> None
           | Some u \<Rightarrow> if u = [] then None else Some (API_BASE env @ u)))"

text \<open>The \<open>disabled\<close> attribute of the four submit buttons.\<close>

definition brain_submit_disabled :: "app_state \<Rightarrow> bool" where
  "brain_submit_disabled st = (busy st = Some Brain)"

definition vision_submit_disabled :: "app_state \<Rightarrow> bool" where
  "vision_submit_disabled st = (busy st = Some Vision)"

definition scribe_file_submit_disabled :: "app_state \<Rightarrow> bool" where
  "scribe_file_submit_disabled st = (busy st = Some Scribe)"

definition scribe_text_submit_disabled :: "app_state \<Rightarrow> bool" where
  "scribe_text_submit_disabled st = (busy st = Some Scribe \<or> trim (scribeText st) = [])"


subsection \<open>How an exchange with the server ends\<close>

datatype completion = Succeeded | HttpFailure | TransportFailure | BodyFailure | Pending

text \<open>
  \<open>Succeeded\<close>: a response with \<open>ok\<close> whose body parses. \<open>HttpFailure\<close>: a response
  without \<open>ok\<close> whose text is read. \<open>TransportFailure\<close>: \<open>fetch\<close> rejects. \<open>BodyFailure\<close>:
  reading or parsing the body throws. \<open>Pending\<close>: a promise never settles.
\<close>

definition completion_of :: "'a response promise \<Rightarrow> completion" where
  "completion_of p =
     (case p of
        Never \<Rightarrow> Pending
      | Rejects _ \<Rightarrow> TransportFailure
      | Resolves r \<Rightarrow>
          if ok r then
            (case json_body r of
               Never \<Rightarrow> Pending | Rejects _ \<Rightarrow> BodyFailure | Resolves _ \<Rightarrow> Succeeded)
          else
            (case text_body r of
               Never \<Rightarrow> Pending | Rejects _ \<Rightarrow> BodyFailure | Resolves _ \<Rightarrow> HttpFailure))"

definition failed :: "completion \<Rightarrow> bool" where
  "failed c = (c = HttpFailure \<or> c = TransportFailure \<or> c = BodyFailure)"

section \<open>Sample inputs\<close>

text \<open>The state with every input empty, no file chosen and no result.\<close>

definition blank_state :: app_state where
  "blank_state =
     \<lparr>busy = None, brainJson = [], brainResult = None, visionResult = None,
      visionOverlay = None, visionFileName = [], visionFile = None,
      scribeText = [], scribeResult = None, scribeFile = None\<rparr>"

text \<open>A parser for the examples: of all texts it accepts \<open>{}\<close> only, as the empty object.\<close>

definition parse_braces :: "string \<Rightarrow> json option" where
  "parse_braces t = (if t = ''{}'' then Some (JObject []) else None)"

text \<open>Networks for the examples: unreachable, answering 500, answering 200 with a body,
  answering 200 with a body that is not JSON.\<close>

definition net_down :: "'a network" where
  "net_down req = Rejects (TypeError ''Failed to fetch'')"

definition net_500 :: "'a network" where
  "net_500 req =
     Resolves (Response False (Resolves ''Internal Server Error'')
                 (Rejects (SyntaxError ''Unexpected token'')))"

definition net_200 :: "'a \<Rightarrow> 'a network" where
  "net_200 d req = Resolves (Response True (Resolves []) (Resolves (Some d)))"

definition net_garbled :: "'a network" where
  "net_garbled req =
     Resolves (Response True (Resolves ''<html>'') (Rejects (SyntaxError ''Unexpected token'')))"

definition sample_file :: File where
  "sample_file = File ''site.png'' ''PNG''"

definition sample_brain :: BrainResponse where
  "sample_brain =
     \<lparr>risk_score = to_double (73 / 100), risk_band = High,
      top_contributors = [\<lparr>feature = ''Budget'', impact = to_double (21 / 100)\<rparr>]\<rparr>"

definition old_brain :: BrainResponse where
  "old_brain = \<lparr>risk_score = to_double (1 / 10), risk_band = Low, top_contributors = []\<rparr>"

definition sample_vision :: VisionResponse where
  "sample_vision =
     \<lparr>detections = [], persons = Finite 20, helmeted_persons = Finite 19,
      compliance_rate = Some (to_double (95 / 100)),
      overlay_url = Some ''/overlays/x.png''\<rparr>"

definition sample_scribe :: ScribeResponse where
  "sample_scribe =
     \<lparr>date = Some ''2025-01-01'', project = None, location = None, subcontractors = None,
      personnel_count = Some (Finite 42), completed_tasks = None, issues = None,
      safety_observations = None, low_confidence = None, confidence = None,
      export_csv_url = Some ''/exports/report.csv''\<rparr>"

text \<open>A state with valid input in every form and an earlier risk result on display.\<close>

definition filled_state :: app_state where
  "filled_state =
     \<lparr>busy = None, brainJson = ''{}'', brainResult = Some old_brain, visionResult = None,
      visionOverlay = None, visionFileName = [], visionFile = Some sample_file,
      scribeText = ''  crew 42  '', scribeResult = None, scribeFile = Some sample_file\<rparr>"

section \<open>Auxiliary facts\<close>

subsection \<open>Strings\<close>

text \<open>
  A string trims to the empty string exactly when it is a sequence of white space code
  points (\<open>trim_empty_iff\<close>).
\<close>

lemma leading_space_white:
  assumes "w \<in> set white_space"
  shows "leading_space (w @ r) = length w"
  using assms unfolding white_space_def [abs_def] set_simps insert_iff empty_iff
  by (elim disjE; simp add: leading_space_def white_space_def)

lemma trimStart_white: "w \<in> set white_space \<Longrightarrow> trimStart (w @ r) = trimStart r"
proof -
  assume w: "w \<in> set white_space"
  then have l: "leading_space (w @ r) = length w" by (rule leading_space_white)
  from w have "w \<noteq> []" by (rule white_space_nonempty)
  with l show ?thesis by (subst trimStart.simps) simp
qed

lemma trimStart_Nil: "trimStart [] = []"
  by (simp add: trimStart.simps leading_space_def white_space_def)

lemma trimEnd_Nil: "trimEnd [] = []"
  by (simp add: trimEnd.simps trailing_space_def white_space_def)

lemma trim_white_space_only: "set ws \<subseteq> set white_space \<Longrightarrow> trim (concat ws) = []"
proof -
  assume "set ws \<subseteq> set white_space"
  then have "trimStart (concat ws) = []"
    by (induction ws) (simp_all add: trimStart_Nil trimStart_white)
  then show ?thesis by (simp add: trim_def trimEnd_Nil)
qed

lemma leading_space_take:
  assumes "leading_space s \<noteq> 0"
  shows "take (leading_space s) s \<in> set white_space"
proof (cases "filter (\<lambda>w. take (length w) s = w) white_space")
  case Nil
  with assms show ?thesis by (simp add: leading_space_def)
next
  case (Cons w rest)
  then have "w \<in> set (filter (\<lambda>w. take (length w) s = w) white_space)" by simp
  then have "w \<in> set white_space" and "take (length w) s = w" by simp_all
  moreover from Cons have "leading_space s = length w" by (simp add: leading_space_def)
  ultimately show ?thesis by simp
qed

lemma trailing_space_drop:
  assumes "trailing_space s \<noteq> 0"
  shows "drop (length s - trailing_space s) s \<in> set white_space"
proof (cases "filter (\<lambda>w. length w \<le> length s \<and> drop (length s - length w) s = w) white_space")
  case Nil
  with assms show ?thesis by (simp add: trailing_space_def)
next
  case (Cons w rest)
  then have "w \<in> set (filter (\<lambda>w. length w \<le> length s \<and> drop (length s - length w) s = w)
      white_space)" by simp
  then have "w \<in> set white_space" and "drop (length s - length w) s = w" by simp_all
  moreover from Cons have "trailing_space s = length w" by (simp add: trailing_space_def)
  ultimately show ?thesis by simp
qed

lemma trimStart_decomp: "\<exists>ws. set ws \<subseteq> set white_space \<and> s = concat ws @ trimStart s"
proof (induction s rule: trimStart.induct)
  case (1 s)
  show ?case
  proof (cases "leading_space s = 0")
    case True
    then have "trimStart s = s" by (subst trimStart.simps) simp
    then have "set [] \<subseteq> set white_space \<and> s = concat [] @ trimStart s" by simp
    then show ?thesis by blast
  next
    case False
    with "1.IH" obtain ws where ws: "set ws \<subseteq> set white_space"
      and d: "drop (leading_space s) s = concat ws @ trimStart (drop (leading_space s) s)"
      by blast
    from False have t: "trimStart s = trimStart (drop (leading_space s) s)"
      by (subst trimStart.simps) simp
    from False have h: "take (leading_space s) s \<in> set white_space"
      by (rule leading_space_take)
    have "s = take (leading_space s) s @ drop (leading_space s) s" by simp
    also have "\<dots> = concat (take (leading_space s) s # ws) @ trimStart s"
      using d t by simp
    finally have "s = concat (take (leading_space s) s # ws) @ trimStart s" .
    moreover have "set (take (leading_space s) s # ws) \<subseteq> set white_space"
      using h ws by simp
    ultimately show ?thesis by blast
  qed
qed

lemma trimEnd_decomp: "\<exists>ws. set ws \<subseteq> set white_space \<and> s = trimEnd s @ concat ws"
proof (induction s rule: trimEnd.induct)
  case (1 s)
  show ?case
  proof (cases "trailing_space s = 0")
    case True
    then have "trimEnd s = s" by (subst trimEnd.simps) simp
    then have "set [] \<subseteq> set white_space \<and> s = trimEnd s @ concat []" by simp
    then show ?thesis by blast
  next
    case False
    let ?n = "length s - trailing_space s"
    from False "1.IH" obtain ws where ws: "set ws \<subseteq> set white_space"
      and d: "take ?n s = trimEnd (take ?n s) @ concat ws"
      by blast
    from False have t: "trimEnd s = trimEnd (take ?n s)"
      by (subst trimEnd.simps) simp
    from False have h: "drop ?n s \<in> set white_space"
      by (rule trailing_space_drop)
    have "trimEnd s @ concat (ws @ [drop ?n s])
            = (trimEnd (take ?n s) @ concat ws) @ drop ?n s"
      using t by simp
    also have "\<dots> = take ?n s @ drop ?n s"
      by (simp only: d [symmetric])
    also have "\<dots> = s" by simp
    finally have "s = trimEnd s @ concat (ws @ [drop ?n s])" by simp
    moreover have "set (ws @ [drop ?n s]) \<subseteq> set white_space"
      using h ws by simp
    ultimately show ?thesis by blast
  qed
qed

lemma trim_empty_iff:
  "trim s = [] \<longleftrightarrow> (\<exists>ws. set ws \<subseteq> set white_space \<and> s = concat ws)"
proof
  assume e: "trim s = []"
  obtain ws1 where w1: "set ws1 \<subseteq> set white_space" and s1: "s = concat ws1 @ trimStart s"
    using trimStart_decomp by blast
  obtain ws2 where w2: "set ws2 \<subseteq> set white_space"
    and s2: "trimStart s = trimEnd (trimStart s) @ concat ws2"
    using trimEnd_decomp by blast
  from e s2 have "trimStart s = concat ws2" by (simp add: trim_def)
  with s1 have "s = concat (ws1 @ ws2)" by simp
  moreover from w1 w2 have "set (ws1 @ ws2) \<subseteq> set white_space" by simp
  ultimately show "\<exists>ws. set ws \<subseteq> set white_space \<and> s = concat ws" by blast
next
  assume "\<exists>ws. set ws \<subseteq> set white_space \<and> s = concat ws"
  then show "trim s = []" using trim_white_space_only by blast
qed

lemma trim_empty: "trim [] = []"
  by (simp add: trim_def trimStart.simps trimEnd.simps leading_space_def trailing_space_def
      white_space_def)

lemma trim_spaces: "trim ''   '' = []"
  by (simp add: trim_def trimStart.simps trimEnd.simps leading_space_def trailing_space_def
      white_space_def)

lemma trim_padded: "trim ''  crew 42  '' = ''crew 42''"
  by (simp add: trim_def trimStart.simps trimEnd.simps leading_space_def trailing_space_def
      white_space_def)

subsection \<open>Numbers\<close>

text \<open>
  Floors of numeral fractions, the recursion equations as conditional rules, and the
  exactness of the integers below \<open>2 ^ 53\<close>; then the values of the three rates of the
  examples, of their percentages and of the printed percentages, computed step by step.
\<close>

lemma floor_rat_numeral: "\<lfloor>(numeral a / numeral b :: rat)\<rfloor> = numeral a div numeral b"
  using floor_divide_of_int_eq [of "numeral a" "numeral b", where ?'a = rat] by simp

lemma ceiling_rat_numeral: "\<lceil>(numeral a / numeral b :: rat)\<rceil> = - (- numeral a div numeral b)"
  using floor_divide_of_int_eq [of "- numeral a" "numeral b", where ?'a = rat]
  by (simp add: ceiling_def)

lemma floor_rat_one: "\<lfloor>(1 / numeral b :: rat)\<rfloor> = 1 div numeral b"
  using floor_divide_of_int_eq [of 1 "numeral b", where ?'a = rat] by simp

lemma ceiling_rat_one: "\<lceil>(1 / numeral b :: rat)\<rceil> = - (- 1 div numeral b)"
  using floor_divide_of_int_eq [of "- 1" "numeral b", where ?'a = rat]
  by (simp add: ceiling_def)

lemma bit_count_0: "bit_count 0 = 0"
  by (simp add: bit_count.simps)

lemma bit_count_pos: "0 < n \<Longrightarrow> bit_count n = Suc (bit_count (n div 2))"
  by (subst bit_count.simps) simp

lemma digit_count_0: "digit_count 0 = 0"
  by (simp add: digit_count.simps)

lemma digit_count_pos: "0 < n \<Longrightarrow> digit_count n = Suc (digit_count (n div 10))"
  by (subst digit_count.simps) simp

lemma decimal_digit: "n < 10 \<Longrightarrow> decimal n = [char_of (48 + n)]"
  by (subst decimal.simps) simp

lemma decimal_more: "10 \<le> n \<Longrightarrow> decimal n = decimal (n div 10) @ [char_of (48 + n mod 10)]"
  by (subst decimal.simps) simp

lemma bit_count_bounds: "0 < n \<Longrightarrow> 2 ^ (bit_count n - 1) \<le> n \<and> n < 2 ^ bit_count n"
proof (induction n rule: bit_count.induct)
  case (1 n)
  show ?case
  proof (cases "n div 2 = 0")
    case True
    with "1.prems" have "n = 1" by (simp add: div_eq_0_iff)
    then show ?thesis by (simp add: bit_count_pos bit_count_0)
  next
    case False
    then have pos: "0 < n div 2" by simp
    with "1.IH" "1.prems" have ih: "2 ^ (bit_count (n div 2) - 1) \<le> n div 2"
      "n div 2 < 2 ^ bit_count (n div 2)" by simp_all
    have bpos: "0 < bit_count (n div 2)" using pos by (simp add: bit_count_pos)
    have eq: "bit_count n = Suc (bit_count (n div 2))" using "1.prems" by (rule bit_count_pos)
    have "2 ^ (bit_count n - 1) = 2 * 2 ^ (bit_count (n div 2) - 1)"
      using bpos by (simp add: eq power_Suc [symmetric] del: power_Suc)
    also have "\<dots> \<le> 2 * (n div 2)" using ih(1) by simp
    also have "\<dots> \<le> n" by simp
    finally have lo: "2 ^ (bit_count n - 1) \<le> n" .
    have "n < 2 * (n div 2) + 2" by presburger
    also have "\<dots> \<le> 2 * 2 ^ bit_count (n div 2)" using ih(2) by simp
    finally have hi: "n < 2 ^ bit_count n" by (simp add: eq)
    from lo hi show ?thesis ..
  qed
qed

lemma round_half_even_of_int: "round_half_even (of_int k) = k"
  by (simp add: round_half_even_def)

lemma to_double_of_nat:
  assumes pos: "0 < n" and small: "n < 2 ^ 53"
  shows "to_double (of_nat n) = Finite (of_nat n)"
proof -
  define b where "b = bit_count n"
  from bit_count_bounds [OF pos] have lo: "2 ^ (b - 1) \<le> n" and hi: "n < 2 ^ b"
    by (simp_all add: b_def)
  have bpos: "0 < b" using pos by (simp add: b_def bit_count_pos)
  have lt: "(2::nat) ^ (b - 1) < 2 ^ 53" using lo small by (rule le_less_trans)
  have "b - 1 < 53" by (rule power_less_imp_less_exp [OF _ lt]) simp
  then have b53: "b \<le> 53" by simp
  define j where "j = 53 - b"
  have il: "ilog2 (of_nat n) = int b - 1"
    using pos by (simp add: ilog2_def b_def)
  have mx: "max (int b - 1) (- 1022) = int b - 1" by simp
  have p: "pow2 (int b - 53) = 1 / 2 ^ j"
    using b53 bpos by (auto simp: pow2_def j_def nat_diff_distrib' intro: arg_cong)
  have r: "round_half_even (of_nat n * 2 ^ j) = int n * 2 ^ j"
    using round_half_even_of_int [of "int n * 2 ^ j"] by simp
  have v: "of_int (round_half_even (of_nat n / pow2 (int b - 53))) * pow2 (int b - 53)
             = (of_nat n :: rat)"
    by (simp add: p r)
  have big: "\<not> pow2 1024 \<le> (of_nat n :: rat)"
  proof -
    have "(of_nat n :: rat) < of_nat (2 ^ 53)" using small by (simp only: of_nat_less_iff)
    then show ?thesis by (simp add: pow2_def)
  qed
  have n0: "(of_nat n :: rat) \<noteq> 0" "0 < (of_nat n :: rat)" using pos by simp_all
  show ?thesis
    using n0 big by (simp add: to_double_def Let_def il mx v)
qed

lemma to_double_numeral:
  "(numeral k :: nat) < 2 ^ 53 \<Longrightarrow> to_double (numeral k) = Finite (numeral k)"
  using to_double_of_nat [of "numeral k"] by simp

lemma to_double_pos:
  assumes "0 < q" and "ilog2 q = e" and "- 1022 \<le> e"
    and "round_half_even (q / pow2 (e - 52)) = m"
    and "of_int m * pow2 (e - 52) = v" and "v < pow2 1024"
  shows "to_double q = Finite v"
  using assms by (simp add: to_double_def Let_def)

lemma ilog2_95: "ilog2 (95 / 100) = - 1"
  by (simp add: ilog2_def ceiling_rat_numeral bit_count_pos bit_count_0)

lemma rhe_95: "round_half_even (95 / 100 / pow2 (- 1 - 52)) = 8556839292003942"
  by (simp add: pow2_def round_half_even_def Let_def floor_rat_numeral)

lemma double_095: "to_double (95 / 100) = Finite (4278419646001971 / 4503599627370496)"
  by (rule to_double_pos [OF _ ilog2_95 _ rhe_95]) (simp_all add: pow2_def)

lemma double_095_nearest:
  "\<bar>95 / 100 - 4278419646001971 / 4503599627370496\<bar> \<le> (1 / 2 ^ 54 :: rat)"
  by simp

lemma ilog2_95b: "ilog2 (4278419646001971 / 4503599627370496 * 100) = 6"
  by (simp add: ilog2_def floor_rat_numeral bit_count_pos bit_count_0)

lemma rhe_95b:
  "round_half_even (4278419646001971 / 4503599627370496 * 100 / pow2 (6 - 52))
     = 6685030696878080"
  by (simp add: pow2_def round_half_even_def Let_def floor_rat_numeral)

lemma times_095: "number_times (Finite (4278419646001971 / 4503599627370496)) (Finite 100) = Finite 95"
  unfolding number_times.simps
  by (rule to_double_pos [OF _ ilog2_95b _ rhe_95b]) (simp_all add: pow2_def)

lemma digit_lengths: "[1 ..< 18] = 1 # 2 # [3 ..< 18]"
  by (simp add: upt_conv_Cons)

lemma ilog10_95: "ilog10 95 = 1"
  by (simp add: ilog10_def digit_count_pos digit_count_0)

lemma cand_95_1: "candidates 95 1 = []"
  by (simp add: candidates_def ilog10_95 pow10_def floor_rat_numeral ceiling_rat_numeral
      to_double_numeral)

lemma cand_95_2: "candidates 95 2 = [(2, 95), (2, 95)]"
  by (simp add: candidates_def ilog10_95 pow10_def floor_rat_numeral ceiling_rat_numeral
      to_double_numeral)

lemma decimal_95: "decimal 95 = ''95''"
  by (simp add: decimal_more decimal_digit char_of_def bit_0)

lemma closer_95: "closer 95 2 (2, 95) (2, 95) = (2, 95)"
  by (simp add: closer_def)

lemma shortest_95: "shortest 95 [1 ..< 18] = Some (2, 2, 95)"
  by (simp only: digit_lengths shortest.simps cand_95_1 cand_95_2 list.case foldl.simps closer_95)

lemma toString_95: "Number_toString (Finite 95) = ''95''"
  by (simp add: positive_toString_def shortest_95 format_digits_def decimal_95 del: One_nat_def)

lemma round_95: "Math_round (Finite 95) = Finite 95"
  by (simp add: floor_rat_numeral)

lemma pct_095: "Math_round (number_times (to_double (95 / 100)) (Finite 100)) = Finite 95"
  by (simp only: double_095 times_095 round_95)

lemma ilog2_75: "ilog2 (75 / 100) = - 1"
  by (simp add: ilog2_def ceiling_rat_numeral bit_count_pos bit_count_0)

lemma rhe_75: "round_half_even (75 / 100 / pow2 (- 1 - 52)) = 6755399441055744"
  by (simp add: pow2_def round_half_even_def Let_def floor_rat_numeral)

lemma double_075: "to_double (75 / 100) = Finite (3 / 4)"
  by (rule to_double_pos [OF _ ilog2_75 _ rhe_75]) (simp_all add: pow2_def)

lemma pct_075: "Math_round (number_times (to_double (75 / 100)) (Finite 100)) = Finite 75"
  unfolding double_075 by (simp add: to_double_numeral floor_rat_numeral)

lemma ilog2_50: "ilog2 (50 / 100) = - 1"
  by (simp add: ilog2_def bit_count_pos bit_count_0)

lemma rhe_50: "round_half_even (50 / 100 / pow2 (- 1 - 52)) = 4503599627370496"
  by (simp add: pow2_def round_half_even_def Let_def)

lemma double_050: "to_double (50 / 100) = Finite (1 / 2)"
  by (rule to_double_pos [OF _ ilog2_50 _ rhe_50]) (simp_all add: pow2_def)

lemma pct_050: "Math_round (number_times (to_double (50 / 100)) (Finite 100)) = Finite 50"
  unfolding double_050 by (simp add: to_double_numeral floor_rat_numeral)

lemma ilog10_75: "ilog10 75 = 1"
  by (simp add: ilog10_def digit_count_pos digit_count_0)

lemma cand_75_1: "candidates 75 1 = []"
  by (simp add: candidates_def ilog10_75 pow10_def floor_rat_numeral ceiling_rat_numeral
      to_double_numeral)

lemma cand_75_2: "candidates 75 2 = [(2, 75), (2, 75)]"
  by (simp add: candidates_def ilog10_75 pow10_def floor_rat_numeral ceiling_rat_numeral
      to_double_numeral)

lemma closer_75: "closer 75 2 (2, 75) (2, 75) = (2, 75)"
  by (simp add: closer_def)

lemma shortest_75: "shortest 75 [1 ..< 18] = Some (2, 2, 75)"
  by (simp only: digit_lengths shortest.simps cand_75_1 cand_75_2 list.case foldl.simps closer_75)

lemma decimal_75: "decimal 75 = ''75''"
  by (simp add: decimal_more decimal_digit char_of_def bit_0)

lemma toString_75: "Number_toString (Finite 75) = ''75''"
  by (simp add: positive_toString_def shortest_75 format_digits_def decimal_75 del: One_nat_def)

lemma ilog10_50: "ilog10 50 = 1"
  by (simp add: ilog10_def digit_count_pos digit_count_0)

lemma cand_50_1: "candidates 50 1 = [(2, 5), (2, 5)]"
  by (simp add: candidates_def ilog10_50 pow10_def floor_rat_numeral ceiling_rat_numeral
      floor_rat_one ceiling_rat_one to_double_numeral)

lemma closer_50: "closer 50 1 (2, 5) (2, 5) = (2, 5)"
  by (simp add: closer_def pow10_def)

lemma shortest_50: "shortest 50 [1 ..< 18] = Some (1, 2, 5)"
  by (simp only: digit_lengths shortest.simps cand_50_1 list.case foldl.simps closer_50)

lemma decimal_5: "decimal 5 = ''5''"
  by (simp add: decimal_digit char_of_def bit_0)

lemma toString_50: "Number_toString (Finite 50) = ''50''"
  by (simp add: positive_toString_def shortest_50 format_digits_def decimal_5 del: One_nat_def)

lemma Math_round_nearest:
  "Math_round (Finite x) = Finite (of_int \<lfloor>x + 1 / 2\<rfloor>) \<and>
   of_int \<lfloor>x + 1 / 2\<rfloor> - 1 / 2 \<le> x \<and> x < of_int \<lfloor>x + 1 / 2\<rfloor> + 1 / 2"
proof -
  have a: "of_int \<lfloor>x + 1 / 2\<rfloor> \<le> x + 1 / 2" by (rule of_int_floor_le)
  have b: "x + 1 / 2 < of_int \<lfloor>x + 1 / 2\<rfloor> + 1" using floor_correct [of "x + 1 / 2"] by simp
  have c: "Math_round (Finite x) = Finite (of_int \<lfloor>x + 1 / 2\<rfloor>)" by simp
  from a have lo: "of_int \<lfloor>x + 1 / 2\<rfloor> - 1 / 2 \<le> x" by linarith
  from b have hi: "x < of_int \<lfloor>x + 1 / 2\<rfloor> + 1 / 2" by linarith
  from c lo hi show ?thesis by blast
qed

lemma ilog2_285: "ilog2 (285 / 1000) = - 2"
  by (simp add: ilog2_def ceiling_rat_numeral bit_count_pos bit_count_0)

lemma rhe_285: "round_half_even (285 / 1000 / pow2 (- 2 - 52)) = 5134103575202365"
  by (simp add: pow2_def round_half_even_def Let_def floor_rat_numeral)

lemma double_0285: "to_double (285 / 1000) = Finite (5134103575202365 / 18014398509481984)"
  by (rule to_double_pos [OF _ ilog2_285 _ rhe_285]) (simp_all add: pow2_def)

lemma ilog2_285b: "ilog2 (5134103575202365 / 18014398509481984 * 100) = 4"
  by (simp add: ilog2_def floor_rat_numeral bit_count_pos bit_count_0)

lemma rhe_285b:
  "round_half_even (5134103575202365 / 18014398509481984 * 100 / pow2 (4 - 52))
     = 8022036836253695"
  by (simp add: pow2_def round_half_even_def Let_def floor_rat_numeral)

lemma times_0285:
  "number_times (Finite (5134103575202365 / 18014398509481984)) (Finite 100)
     = Finite (8022036836253695 / 281474976710656)"
  unfolding number_times.simps
  by (rule to_double_pos [OF _ ilog2_285b _ rhe_285b]) (simp_all add: pow2_def)

lemma round_0285: "Math_round (Finite (8022036836253695 / 281474976710656)) = Finite 28"
  by (simp add: floor_rat_numeral)

lemma pct_0285: "Math_round (number_times (to_double (285 / 1000)) (Finite 100)) = Finite 28"
  by (simp only: double_0285 times_0285 round_0285)

lemma ilog2_695: "ilog2 (695 / 1000) = - 1"
  by (simp add: ilog2_def ceiling_rat_numeral bit_count_pos bit_count_0)

lemma rhe_695: "round_half_even (695 / 1000 / pow2 (- 1 - 52)) = 6260003482044989"
  by (simp add: pow2_def round_half_even_def Let_def floor_rat_numeral)

lemma double_0695: "to_double (695 / 1000) = Finite (6260003482044989 / 9007199254740992)"
  by (rule to_double_pos [OF _ ilog2_695 _ rhe_695]) (simp_all add: pow2_def)

lemma ilog2_695b: "ilog2 (6260003482044989 / 9007199254740992 * 100) = 6"
  by (simp add: ilog2_def floor_rat_numeral bit_count_pos bit_count_0)

lemma rhe_695b:
  "round_half_even (6260003482044989 / 9007199254740992 * 100 / pow2 (6 - 52))
     = 4890627720347648"
  by (simp add: pow2_def round_half_even_def Let_def floor_rat_numeral)

lemma times_0695:
  "number_times (Finite (6260003482044989 / 9007199254740992)) (Finite 100) = Finite (139 / 2)"
  unfolding number_times.simps
  by (rule to_double_pos [OF _ ilog2_695b _ rhe_695b]) (simp_all add: pow2_def)

lemma round_0695: "Math_round (Finite (139 / 2)) = Finite 70"
  by (simp add: floor_rat_numeral)

lemma pct_0695: "Math_round (number_times (to_double (695 / 1000)) (Finite 100)) = Finite 70"
  by (simp only: double_0695 times_0695 round_0695)

lemma exact_0695_below_half:
  "\<lfloor>(6260003482044989 / 9007199254740992 * 100 + 1 / 2 :: rat)\<rfloor> = 69"
  by (simp add: floor_rat_numeral)

lemma ilog10_28: "ilog10 28 = 1"
  by (simp add: ilog10_def digit_count_pos digit_count_0)

lemma cand_28_1: "candidates 28 1 = []"
  by (simp add: candidates_def ilog10_28 pow10_def floor_rat_numeral ceiling_rat_numeral
      to_double_numeral)

lemma cand_28_2: "candidates 28 2 = [(2, 28), (2, 28)]"
  by (simp add: candidates_def ilog10_28 pow10_def floor_rat_numeral ceiling_rat_numeral
      to_double_numeral)

lemma closer_28: "closer 28 2 (2, 28) (2, 28) = (2, 28)"
  by (simp add: closer_def)

lemma shortest_28: "shortest 28 [1 ..< 18] = Some (2, 2, 28)"
  by (simp only: digit_lengths shortest.simps cand_28_1 cand_28_2 list.case foldl.simps closer_28)

lemma decimal_28: "decimal 28 = ''28''"
  by (simp add: decimal_more decimal_digit char_of_def bit_0)

lemma toString_28: "Number_toString (Finite 28) = ''28''"
  by (simp add: positive_toString_def shortest_28 format_digits_def decimal_28 del: One_nat_def)

lemma ilog10_70: "ilog10 70 = 1"
  by (simp add: ilog10_def digit_count_pos digit_count_0)

lemma cand_70_1: "candidates 70 1 = [(2, 7), (2, 7)]"
  by (simp add: candidates_def ilog10_70 pow10_def floor_rat_numeral ceiling_rat_numeral
      to_double_numeral)

lemma closer_70: "closer 70 1 (2, 7) (2, 7) = (2, 7)"
  by (simp add: closer_def pow10_def)

lemma shortest_70: "shortest 70 [1 ..< 18] = Some (1, 2, 7)"
  by (simp only: digit_lengths shortest.simps cand_70_1 list.case foldl.simps closer_70)

lemma decimal_7: "decimal 7 = ''7''"
  by (simp add: decimal_digit char_of_def bit_0)

lemma toString_70: "Number_toString (Finite 70) = ''70''"
  by (simp add: positive_toString_def shortest_70 format_digits_def decimal_7 del: One_nat_def)

lemma tone_bands:
  "(number_ge pct (Finite 90) \<longrightarrow>
      (if number_ge pct (Finite 90) then tone_ok
       else if number_ge pct (Finite 70) then tone_warn else tone_bad) = tone_ok) \<and>
   (number_ge pct (Finite 70) \<and> number_less pct (Finite 90) \<longrightarrow>
      (if number_ge pct (Finite 90) then tone_ok
       else if number_ge pct (Finite 70) then tone_warn else tone_bad) = tone_warn) \<and>
   (number_less pct (Finite 70) \<longrightarrow>
      (if number_ge pct (Finite 90) then tone_ok
       else if number_ge pct (Finite 70) then tone_warn else tone_bad) = tone_bad)"
  by (cases pct) auto

subsection \<open>Handlers\<close>

text \<open>
  How \<open>read_json\<close> ends for each way an exchange can end, the requests a handler
  issues (none, or exactly one), and the sample inputs.
\<close>

lemma read_json_pending: "(read_json p = Never) = (completion_of p = Pending)"
  by (cases p) (auto simp: read_json_def completion_of_def split: promise.splits)

lemma read_json_failed: "(\<exists>e. read_json p = Rejects e) = failed (completion_of p)"
  by (cases p) (auto simp: read_json_def completion_of_def failed_def split: promise.splits)

lemma read_json_succeeded:
  "(read_json p = Resolves d) = (\<exists>t. p = Resolves (Response True t (Resolves d)))"
proof (cases p)
  case (Resolves r)
  then show ?thesis
    by (cases r) (auto simp: read_json_def split: promise.splits)
qed (simp_all add: read_json_def)

lemma busy_while_pending:
  "JSON_parse (or_else (brainJson st) ''{}'') = Some payload \<Longrightarrow>
   completion_of (netB (brain_request env payload)) = Pending \<Longrightarrow>
   busy (snd (submitBrain env JSON_parse netB st)) = Some Brain"
  "visionFile st = Some f \<Longrightarrow> completion_of (netV (vision_request env f)) = Pending \<Longrightarrow>
   busy (snd (submitVision env netV st)) = Some Vision"
  "scribeFile st = Some f \<Longrightarrow> completion_of (netS (scribe_file_request env f)) = Pending \<Longrightarrow>
   busy (snd (submitScribeFile env netS st)) = Some Scribe"
  "trim (scribeText st) \<noteq> [] \<Longrightarrow>
   completion_of (netS (scribe_text_request env (scribeText st))) = Pending \<Longrightarrow>
   busy (snd (submitScribeText env netS st)) = Some Scribe"
  by (simp_all add: submitBrain_def submitVision_def submitScribeFile_def submitScribeText_def
      Let_def read_json_pending [symmetric])

lemma text_submit_gate:
  "busy st \<noteq> Some Scribe \<Longrightarrow> scribe_text_submit_disabled st = (trim (scribeText st) = [])"
  by (simp add: scribe_text_submit_disabled_def)

lemma stringify_not_finite:
  "body (brain_request env (JObject [(''Budget'', JNumber PosInfinity)]))
     = JsonBody (JObject [(''Budget'', JNull)])"
  by (simp add: brain_request_def)

lemma filled_inputs:
  "parse_braces (or_else (brainJson filled_state) ''{}'') = Some (JObject [])"
  "visionFile filled_state = Some sample_file"
  "scribeFile filled_state = Some sample_file"
  "trim (scribeText filled_state) \<noteq> []"
  by (simp_all add: filled_state_def parse_braces_def or_else_def trim_padded)

lemma sample_completions:
  "completion_of (net_500 r) = HttpFailure"
  "completion_of (net_down r) = TransportFailure"
  "completion_of (net_garbled r) = BodyFailure"
  "completion_of (net_200 d r) = Succeeded"
  by (simp_all add: completion_of_def net_500_def net_down_def net_garbled_def net_200_def)

lemma requests_simps:
  "requests [] = []"
  "requests (PreventDefault # es) = requests es"
  "requests (Alert m # es) = requests es"
  "requests (ConsoleError e # es) = requests es"
  "requests (Fetch r # es) = r # requests es"
  by (simp_all add: requests_def)

lemma brain_requests:
  "requests (fst (submitBrain env JSON_parse netB st)) =
     (case JSON_parse (or_else (brainJson st) ''{}'') of
        None \<Rightarrow> []
      | Some payload \<Rightarrow> [brain_request env payload])"
  by (simp add: submitBrain_def Let_def requests_simps split: option.splits promise.splits)

lemma vision_requests:
  "requests (fst (submitVision env netV st)) =
     (case visionFile st of None \<Rightarrow> [] | Some f \<Rightarrow> [vision_request env f])"
  by (simp add: submitVision_def Let_def requests_simps split: option.splits promise.splits)

lemma scribe_file_requests:
  "requests (fst (submitScribeFile env netS st)) =
     (case scribeFile st of None \<Rightarrow> [] | Some f \<Rightarrow> [scribe_file_request env f])"
  by (simp add: submitScribeFile_def Let_def requests_simps split: option.splits promise.splits)

lemma scribe_text_requests:
  "requests (fst (submitScribeText env netS st)) =
     (if trim (scribeText st) = [] then [] else [scribe_text_request env (scribeText st)])"
  by (simp add: submitScribeText_def Let_def requests_simps split: promise.splits)

lemma alerts_simps:
  "alerts [] = []"
  "alerts (PreventDefault # es) = alerts es"
  "alerts (Alert m # es) = m # alerts es"
  "alerts (ConsoleError e # es) = alerts es"
  "alerts (Fetch r # es) = alerts es"
  by (simp_all add: alerts_def)

section \<open>Properties\<close>

text \<open>
  C1. In every panel a submission whose required input is missing or invalid (a risk
  payload that does not parse as JSON, no file chosen for the imagery panel or for the
  extraction file path, text that is empty after trimming for the extraction text path,
  which is a text made of white space code points only) returns without any network call
  and leaves the whole state, the busy flag and the stored results included, as it was.
\<close>

theorem invalid_input_no_request:
  "(JSON_parse (or_else (brainJson st) ''{}'') = None \<longrightarrow>
      requests (fst (submitBrain env JSON_parse netB st)) = [] \<and>
      snd (submitBrain env JSON_parse netB st) = st) \<and>
   (visionFile st = None \<longrightarrow>
      requests (fst (submitVision env netV st)) = [] \<and>
      snd (submitVision env netV st) = st) \<and>
   (scribeFile st = None \<longrightarrow>
      requests (fst (submitScribeFile env netS st)) = [] \<and>
      snd (submitScribeFile env netS st) = st) \<and>
   (trim (scribeText st) = [] \<longrightarrow>
      requests (fst (submitScribeText env netS st)) = [] \<and>
      snd (submitScribeText env netS st) = st) \<and>
   (set ws \<subseteq> set white_space \<and> scribeText st = concat ws \<longrightarrow>
      requests (fst (submitScribeText env netS st)) = [] \<and>
      snd (submitScribeText env netS st) = st)"
proof -
  have "set ws \<subseteq> set white_space \<and> scribeText st = concat ws \<longrightarrow> trim (scribeText st) = []"
    using trim_white_space_only [of ws] by simp
  then show ?thesis
    by (simp add: submitBrain_def submitVision_def submitScribeFile_def submitScribeText_def
        requests_def)
qed

theorem invalid_input_no_request_witness:
  "requests (fst (submitBrain None parse_braces net_down (blank_state\<lparr>brainJson := ''{oops''\<rparr>))) = [] \<and>
   snd (submitBrain None parse_braces net_down (blank_state\<lparr>brainJson := ''{oops''\<rparr>))
     = blank_state\<lparr>brainJson := ''{oops''\<rparr> \<and>
   requests (fst (submitVision None (net_200 sample_vision) blank_state)) = [] \<and>
   snd (submitVision None (net_200 sample_vision) blank_state) = blank_state \<and>
   requests (fst (submitScribeFile None (net_200 sample_scribe) blank_state)) = [] \<and>
   snd (submitScribeFile None (net_200 sample_scribe) blank_state) = blank_state \<and>
   requests (fst (submitScribeText None (net_200 sample_scribe) (blank_state\<lparr>scribeText := ''   ''\<rparr>))) = [] \<and>
   snd (submitScribeText None (net_200 sample_scribe) (blank_state\<lparr>scribeText := ''   ''\<rparr>))
     = blank_state\<lparr>scribeText := ''   ''\<rparr> \<and>
   requests (fst (submitScribeText None (net_200 sample_scribe)
     (blank_state\<lparr>scribeText := [CHR 0x09, CHR 0xC2, CHR 0xA0, CHR 0x0A]\<rparr>))) = [] \<and>
   snd (submitScribeText None (net_200 sample_scribe)
     (blank_state\<lparr>scribeText := [CHR 0x09, CHR 0xC2, CHR 0xA0, CHR 0x0A]\<rparr>))
     = blank_state\<lparr>scribeText := [CHR 0x09, CHR 0xC2, CHR 0xA0, CHR 0x0A]\<rparr>"
proof -
  let ?tab_nbsp_lf = "[[CHR 0x09], [CHR 0xC2, CHR 0xA0], [CHR 0x0A]]"
  have brain: "parse_braces (or_else (brainJson (blank_state\<lparr>brainJson := ''{oops''\<rparr>)) ''{}'') = None"
    by (simp add: parse_braces_def or_else_def)
  have files: "visionFile blank_state = None" "scribeFile blank_state = None"
    by (simp_all add: blank_state_def)
  have spaces: "trim (scribeText (blank_state\<lparr>scribeText := ''   ''\<rparr>)) = []"
    by (simp add: trim_spaces)
  have white: "set ?tab_nbsp_lf \<subseteq> set white_space \<and>
      scribeText (blank_state\<lparr>scribeText := [CHR 0x09, CHR 0xC2, CHR 0xA0, CHR 0x0A]\<rparr>)
        = concat ?tab_nbsp_lf"
    by (simp add: white_space_def)
  have w1:
    "requests (fst (submitBrain None parse_braces net_down (blank_state\<lparr>brainJson := ''{oops''\<rparr>))) = [] \<and>
     snd (submitBrain None parse_braces net_down (blank_state\<lparr>brainJson := ''{oops''\<rparr>))
       = blank_state\<lparr>brainJson := ''{oops''\<rparr>"
    using brain
      invalid_input_no_request [of parse_braces "blank_state\<lparr>brainJson := ''{oops''\<rparr>" None net_down]
    by blast
  have w2:
    "requests (fst (submitVision None (net_200 sample_vision) blank_state)) = [] \<and>
     snd (submitVision None (net_200 sample_vision) blank_state) = blank_state \<and>
     requests (fst (submitScribeFile None (net_200 sample_scribe) blank_state)) = [] \<and>
     snd (submitScribeFile None (net_200 sample_scribe) blank_state) = blank_state"
    using files
      invalid_input_no_request [of parse_braces blank_state None net_down "net_200 sample_vision"
        "net_200 sample_scribe"]
    by blast
  have w3:
    "requests (fst (submitScribeText None (net_200 sample_scribe) (blank_state\<lparr>scribeText := ''   ''\<rparr>))) = [] \<and>
     snd (submitScribeText None (net_200 sample_scribe) (blank_state\<lparr>scribeText := ''   ''\<rparr>))
       = blank_state\<lparr>scribeText := ''   ''\<rparr>"
    using spaces
      invalid_input_no_request [of parse_braces "blank_state\<lparr>scribeText := ''   ''\<rparr>" None net_down
        net_down "net_200 sample_scribe"]
    by blast
  have w4:
    "requests (fst (submitScribeText None (net_200 sample_scribe)
       (blank_state\<lparr>scribeText := [CHR 0x09, CHR 0xC2, CHR 0xA0, CHR 0x0A]\<rparr>))) = [] \<and>
     snd (submitScribeText None (net_200 sample_scribe)
       (blank_state\<lparr>scribeText := [CHR 0x09, CHR 0xC2, CHR 0xA0, CHR 0x0A]\<rparr>))
       = blank_state\<lparr>scribeText := [CHR 0x09, CHR 0xC2, CHR 0xA0, CHR 0x0A]\<rparr>"
    using white
      invalid_input_no_request [of parse_braces
        "blank_state\<lparr>scribeText := [CHR 0x09, CHR 0xC2, CHR 0xA0, CHR 0x0A]\<rparr>" None net_down
        net_down "net_200 sample_scribe" ?tab_nbsp_lf]
    by blast
  from w1 w2 w3 w4 show ?thesis by (intro conjI) (erule conjunct1 conjunct2 | assumption | blast)+
qed

text \<open>
  C2. A handler that has begun a request (it has set the busy flag) clears the flag on
  every path on which the exchange completes: a successful response, a response with a
  non-success status, a transport failure, and an exception thrown while the body is
  read or parsed.
\<close>

theorem busy_cleared_on_completion:
  "(JSON_parse (or_else (brainJson st) ''{}'') = Some payload \<and>
    completion_of (netB (brain_request env payload)) \<noteq> Pending \<longrightarrow>
      busy (snd (submitBrain env JSON_parse netB st)) = None) \<and>
   (visionFile st = Some f \<and> completion_of (netV (vision_request env f)) \<noteq> Pending \<longrightarrow>
      busy (snd (submitVision env netV st)) = None) \<and>
   (scribeFile st = Some g \<and> completion_of (netS (scribe_file_request env g)) \<noteq> Pending \<longrightarrow>
      busy (snd (submitScribeFile env netS st)) = None) \<and>
   (trim (scribeText st) \<noteq> [] \<and>
    completion_of (netS (scribe_text_request env (scribeText st))) \<noteq> Pending \<longrightarrow>
      busy (snd (submitScribeText env netS st)) = None)"
  by (auto simp: submitBrain_def submitVision_def submitScribeFile_def submitScribeText_def
      Let_def read_json_pending [symmetric] split: promise.splits)

theorem busy_cleared_on_completion_witness:
  "busy (snd (submitBrain None parse_braces net_500 filled_state)) = None \<and>
   busy (snd (submitVision None net_down filled_state)) = None \<and>
   busy (snd (submitScribeFile None net_garbled filled_state)) = None \<and>
   busy (snd (submitScribeText None (net_200 sample_scribe) filled_state)) = None"
  using filled_inputs
    busy_cleared_on_completion [where st = filled_state and JSON_parse = parse_braces
      and payload = "JObject []" and env = None and netB = net_500 and netV = net_down
      and f = sample_file and g = sample_file and netS = net_garbled]
    busy_cleared_on_completion [where st = filled_state and JSON_parse = parse_braces
      and payload = "JObject []" and env = None and netB = net_500 and netV = net_down
      and f = sample_file and g = sample_file and netS = "net_200 sample_scribe"]
  by (simp add: sample_completions)

text \<open>
  C3. When a submission fails (non-success status, transport error, or an error while
  the body is read or parsed) the state after the handler is the state before it with
  the busy flag idle: the stored results are exactly what they were.
\<close>

theorem failure_keeps_result:
  "(JSON_parse (or_else (brainJson st) ''{}'') = Some payload \<and>
    failed (completion_of (netB (brain_request env payload))) \<longrightarrow>
      snd (submitBrain env JSON_parse netB st) = st\<lparr>busy := None\<rparr>) \<and>
   (visionFile st = Some f \<and> failed (completion_of (netV (vision_request env f))) \<longrightarrow>
      snd (submitVision env netV st) = st\<lparr>busy := None\<rparr>) \<and>
   (scribeFile st = Some g \<and> failed (completion_of (netS (scribe_file_request env g))) \<longrightarrow>
      snd (submitScribeFile env netS st) = st\<lparr>busy := None\<rparr>) \<and>
   (trim (scribeText st) \<noteq> [] \<and>
    failed (completion_of (netS (scribe_text_request env (scribeText st)))) \<longrightarrow>
      snd (submitScribeText env netS st) = st\<lparr>busy := None\<rparr>)"
  by (auto simp: submitBrain_def submitVision_def submitScribeFile_def submitScribeText_def
      Let_def read_json_failed [symmetric])

theorem failure_keeps_result_witness:
  "snd (submitBrain None parse_braces net_500 filled_state) = filled_state\<lparr>busy := None\<rparr> \<and>
   snd (submitVision None net_down filled_state) = filled_state\<lparr>busy := None\<rparr> \<and>
   snd (submitScribeFile None net_garbled filled_state) = filled_state\<lparr>busy := None\<rparr> \<and>
   snd (submitScribeText None net_500 filled_state) = filled_state\<lparr>busy := None\<rparr> \<and>
   brainResult (filled_state\<lparr>busy := None\<rparr>) = Some old_brain"
  using filled_inputs
    failure_keeps_result [where st = filled_state and JSON_parse = parse_braces
      and payload = "JObject []" and env = None and netB = net_500 and netV = net_down
      and f = sample_file and g = sample_file and netS = net_garbled]
    failure_keeps_result [where st = filled_state and JSON_parse = parse_braces
      and payload = "JObject []" and env = None and netB = net_500 and netV = net_down
      and f = sample_file and g = sample_file and netS = net_500]
  by (simp add: sample_completions failed_def filled_state_def)

text \<open>
  C4. On a successful response whose body parses to a value of the expected shape, the
  panel's stored result becomes that value, whatever result was stored before; the rest
  of the state is as before, but for the busy flag and, in the imagery panel, the
  overlay reference and file name derived from the same response.
\<close>

theorem success_replaces_result:
  "(JSON_parse (or_else (brainJson st) ''{}'') = Some payload \<and>
    netB (brain_request env payload) = Resolves (Response True tb (Resolves (Some b))) \<longrightarrow>
      snd (submitBrain env JSON_parse netB st) = st\<lparr>busy := None, brainResult := Some b\<rparr>) \<and>
   (visionFile st = Some f \<and>
    netV (vision_request env f) = Resolves (Response True tv (Resolves (Some v))) \<longrightarrow>
      snd (submitVision env netV st)
        = st\<lparr>busy := None, visionResult := Some v,
             visionOverlay := resolve_overlay env (Some v), visionFileName := name f\<rparr>) \<and>
   (scribeFile st = Some g \<and>
    netS (scribe_file_request env g) = Resolves (Response True ts (Resolves (Some s))) \<longrightarrow>
      snd (submitScribeFile env netS st) = st\<lparr>busy := None, scribeResult := Some s\<rparr>) \<and>
   (trim (scribeText st) \<noteq> [] \<and>
    netS (scribe_text_request env (scribeText st)) = Resolves (Response True ts (Resolves (Some s))) \<longrightarrow>
      snd (submitScribeText env netS st) = st\<lparr>busy := None, scribeResult := Some s\<rparr>)"
  by (auto simp: submitBrain_def submitVision_def submitScribeFile_def submitScribeText_def
      Let_def read_json_def)


theorem success_replaces_result_witness:
  "snd (submitBrain None parse_braces (net_200 sample_brain) filled_state)
     = filled_state\<lparr>busy := None, brainResult := Some sample_brain\<rparr> \<and>
   snd (submitVision None (net_200 sample_vision) filled_state)
     = filled_state\<lparr>busy := None, visionResult := Some sample_vision,
         visionOverlay := resolve_overlay None (Some sample_vision),
         visionFileName := ''site.png''\<rparr> \<and>
   snd (submitScribeFile None (net_200 sample_scribe) filled_state)
     = filled_state\<lparr>busy := None, scribeResult := Some sample_scribe\<rparr> \<and>
   snd (submitScribeText None (net_200 sample_scribe) filled_state)
     = filled_state\<lparr>busy := None, scribeResult := Some sample_scribe\<rparr>"
  using filled_inputs
    success_replaces_result [where st = filled_state and JSON_parse = parse_braces
      and payload = "JObject []" and env = None and netB = "net_200 sample_brain"
      and netV = "net_200 sample_vision" and f = sample_file and g = sample_file
      and netS = "net_200 sample_scribe" and tb = "Resolves []" and tv = "Resolves []" and ts = "Resolves []"
      and b = sample_brain and v = sample_vision and s = sample_scribe]
  by (simp add: net_200_def sample_file_def)


text \<open>
  C5. For an imagery result whose \<open>compliance_rate\<close> is a number \<open>r\<close>, the percentage
  displayed is \<open>Math.round(r * 100)\<close> followed by a percent sign: the product is the
  binary64 product, and when it is finite the percentage is the integer \<open>k\<close> with
  \<open>k - 1/2 \<le> product < k + 1/2\<close>. The tone follows that percentage: at least 90 is the
  good band (On Track), at least 70 and below 90 the monitor band, below 70 the critical
  band. The rate 0.95 displays 95% in the good band, 0.75 displays 75% in the monitor
  band, 0.5 displays 50% in the critical band. Two rates whose products are not
  integers: 0.285 displays 28% (critical), its product being 28.499999999999996, and
  0.695 displays 70% (monitor), its product being 69.5.
\<close>

theorem compliance_percentage_and_tone:
  "visionResult st = Some d \<and> compliance_rate d = Some r \<longrightarrow>
     (let pct = Math_round (number_times r (Finite 100)) in
        compliancePct st = Some pct \<and>
        compliance_card_text st = Number_toString pct @ ''%'' \<and>
        compliance_panel_text st = Some (Number_toString pct @ ''%'') \<and>
        (number_ge pct (Finite 90) \<longrightarrow>
           complianceTone st = Some tone_ok \<and> compliance_pill_label st = ''On Track'') \<and>
        (number_ge pct (Finite 70) \<and> number_less pct (Finite 90) \<longrightarrow>
           complianceTone st = Some tone_warn \<and> compliance_pill_label st = ''Monitor'') \<and>
        (number_less pct (Finite 70) \<longrightarrow>
           complianceTone st = Some tone_bad \<and> compliance_pill_label st = ''Critical'') \<and>
        (r = to_double (95 / 100) \<longrightarrow>
           compliance_card_text st = ''95%'' \<and> complianceTone st = Some tone_ok) \<and>
        (r = to_double (75 / 100) \<longrightarrow>
           compliance_card_text st = ''75%'' \<and> complianceTone st = Some tone_warn) \<and>
        (r = to_double (50 / 100) \<longrightarrow>
           compliance_card_text st = ''50%'' \<and> complianceTone st = Some tone_bad) \<and>
        (r = to_double (285 / 1000) \<longrightarrow>
           compliance_card_text st = ''28%'' \<and> complianceTone st = Some tone_bad) \<and>
        (r = to_double (695 / 1000) \<longrightarrow>
           compliance_card_text st = ''70%'' \<and> complianceTone st = Some tone_warn) \<and>
        (\<forall>x. number_times r (Finite 100) = Finite x \<longrightarrow>
           (\<exists>k. pct = Finite (of_int k) \<and> of_int k - 1 / 2 \<le> x \<and> x < of_int k + 1 / 2)) \<and>
        (number_times r (Finite 100) \<in> {PosInfinity, NegInfinity, NaN} \<longrightarrow>
           pct = number_times r (Finite 100)))"
proof (intro impI, elim conjE)
  assume v: "visionResult st = Some d" and c: "compliance_rate d = Some r"
  define pct where "pct = Math_round (number_times r (Finite 100))"
  have p: "compliancePct st = Some pct"
    by (simp add: compliancePct_def v c pct_def)
  have card: "compliance_card_text st = Number_toString pct @ ''%''"
    by (simp add: compliance_card_text_def p)
  have panel: "compliance_panel_text st = Some (Number_toString pct @ ''%'')"
    by (simp add: compliance_panel_text_def v p)
  have tone: "complianceTone st =
      Some (if number_ge pct (Finite 90) then tone_ok
            else if number_ge pct (Finite 70) then tone_warn else tone_bad)"
    by (simp add: complianceTone_def p)
  have label: "compliance_pill_label st =
      (if complianceTone st = Some tone_ok then ''On Track''
       else if complianceTone st = Some tone_warn then ''Monitor'' else ''Critical'')"
    by (simp add: compliance_pill_label_def p)
  have good: "number_ge pct (Finite 90) \<longrightarrow>
      complianceTone st = Some tone_ok \<and> compliance_pill_label st = ''On Track''"
    using tone_bands [of pct] by (simp add: label tone)
  have monitor: "number_ge pct (Finite 70) \<and> number_less pct (Finite 90) \<longrightarrow>
      complianceTone st = Some tone_warn \<and> compliance_pill_label st = ''Monitor''"
    using tone_bands [of pct] by (simp add: label tone)
  have critical: "number_less pct (Finite 70) \<longrightarrow>
      complianceTone st = Some tone_bad \<and> compliance_pill_label st = ''Critical''"
    using tone_bands [of pct] by (simp add: label tone)
  have e95: "r = to_double (95 / 100) \<longrightarrow>
      compliance_card_text st = ''95%'' \<and> complianceTone st = Some tone_ok"
  proof
    assume "r = to_double (95 / 100)"
    then have "pct = Finite 95" unfolding pct_def by (simp only: pct_095)
    then show "compliance_card_text st = ''95%'' \<and> complianceTone st = Some tone_ok"
      by (simp add: card tone toString_95 del: Number_toString.simps)
  qed
  have e75: "r = to_double (75 / 100) \<longrightarrow>
      compliance_card_text st = ''75%'' \<and> complianceTone st = Some tone_warn"
  proof
    assume "r = to_double (75 / 100)"
    then have "pct = Finite 75" unfolding pct_def by (simp only: pct_075)
    then show "compliance_card_text st = ''75%'' \<and> complianceTone st = Some tone_warn"
      by (simp add: card tone toString_75 del: Number_toString.simps)
  qed
  have e50: "r = to_double (50 / 100) \<longrightarrow>
      compliance_card_text st = ''50%'' \<and> complianceTone st = Some tone_bad"
  proof
    assume "r = to_double (50 / 100)"
    then have "pct = Finite 50" unfolding pct_def by (simp only: pct_050)
    then show "compliance_card_text st = ''50%'' \<and> complianceTone st = Some tone_bad"
      by (simp add: card tone toString_50 del: Number_toString.simps)
  qed
  have e285: "r = to_double (285 / 1000) \<longrightarrow>
      compliance_card_text st = ''28%'' \<and> complianceTone st = Some tone_bad"
  proof
    assume "r = to_double (285 / 1000)"
    then have "pct = Finite 28" unfolding pct_def by (simp only: pct_0285)
    then show "compliance_card_text st = ''28%'' \<and> complianceTone st = Some tone_bad"
      by (simp add: card tone toString_28 del: Number_toString.simps)
  qed
  have e695: "r = to_double (695 / 1000) \<longrightarrow>
      compliance_card_text st = ''70%'' \<and> complianceTone st = Some tone_warn"
  proof
    assume "r = to_double (695 / 1000)"
    then have "pct = Finite 70" unfolding pct_def by (simp only: pct_0695)
    then show "compliance_card_text st = ''70%'' \<and> complianceTone st = Some tone_warn"
      by (simp add: card tone toString_70 del: Number_toString.simps)
  qed
  have nearest: "\<forall>x. number_times r (Finite 100) = Finite x \<longrightarrow>
      (\<exists>k. pct = Finite (of_int k) \<and> of_int k - 1 / 2 \<le> x \<and> x < of_int k + 1 / 2)"
  proof (intro allI impI)
    fix x
    assume "number_times r (Finite 100) = Finite x"
    then have "pct = Math_round (Finite x)" by (simp only: pct_def)
    with Math_round_nearest [of x]
    have "pct = Finite (of_int \<lfloor>x + 1 / 2\<rfloor>) \<and>
        of_int \<lfloor>x + 1 / 2\<rfloor> - 1 / 2 \<le> x \<and> x < of_int \<lfloor>x + 1 / 2\<rfloor> + 1 / 2"
      by simp
    then show "\<exists>k. pct = Finite (of_int k) \<and> of_int k - 1 / 2 \<le> x \<and> x < of_int k + 1 / 2"
      by blast
  qed
  have other: "number_times r (Finite 100) \<in> {PosInfinity, NegInfinity, NaN} \<longrightarrow>
      pct = number_times r (Finite 100)"
    by (auto simp: pct_def)
  from p card panel good monitor critical e95 e75 e50 e285 e695 nearest other
  show "let pct = Math_round (number_times r (Finite 100)) in
        compliancePct st = Some pct \<and>
        compliance_card_text st = Number_toString pct @ ''%'' \<and>
        compliance_panel_text st = Some (Number_toString pct @ ''%'') \<and>
        (number_ge pct (Finite 90) \<longrightarrow>
           complianceTone st = Some tone_ok \<and> compliance_pill_label st = ''On Track'') \<and>
        (number_ge pct (Finite 70) \<and> number_less pct (Finite 90) \<longrightarrow>
           complianceTone st = Some tone_warn \<and> compliance_pill_label st = ''Monitor'') \<and>
        (number_less pct (Finite 70) \<longrightarrow>
           complianceTone st = Some tone_bad \<and> compliance_pill_label st = ''Critical'') \<and>
        (r = to_double (95 / 100) \<longrightarrow>
           compliance_card_text st = ''95%'' \<and> complianceTone st = Some tone_ok) \<and>
        (r = to_double (75 / 100) \<longrightarrow>
           compliance_card_text st = ''75%'' \<and> complianceTone st = Some tone_warn) \<and>
        (r = to_double (50 / 100) \<longrightarrow>
           compliance_card_text st = ''50%'' \<and> complianceTone st = Some tone_bad) \<and>
        (r = to_double (285 / 1000) \<longrightarrow>
           compliance_card_text st = ''28%'' \<and> complianceTone st = Some tone_bad) \<and>
        (r = to_double (695 / 1000) \<longrightarrow>
           compliance_card_text st = ''70%'' \<and> complianceTone st = Some tone_warn) \<and>
        (\<forall>x. number_times r (Finite 100) = Finite x \<longrightarrow>
           (\<exists>k. pct = Finite (of_int k) \<and> of_int k - 1 / 2 \<le> x \<and> x < of_int k + 1 / 2)) \<and>
        (number_times r (Finite 100) \<in> {PosInfinity, NegInfinity, NaN} \<longrightarrow>
           pct = number_times r (Finite 100))"
    unfolding Let_def pct_def by blast
qed


theorem compliance_percentage_and_tone_witness:
  "compliance_card_text (blank_state\<lparr>visionResult := Some sample_vision\<rparr>) = ''95%'' \<and>
   compliance_pill_label (blank_state\<lparr>visionResult := Some sample_vision\<rparr>) = ''On Track'' \<and>
   compliance_card_text (blank_state\<lparr>visionResult :=
       Some (sample_vision\<lparr>compliance_rate := Some (to_double (75 / 100))\<rparr>)\<rparr>) = ''75%'' \<and>
   compliance_pill_label (blank_state\<lparr>visionResult :=
       Some (sample_vision\<lparr>compliance_rate := Some (to_double (75 / 100))\<rparr>)\<rparr>) = ''Monitor'' \<and>
   compliance_card_text (blank_state\<lparr>visionResult :=
       Some (sample_vision\<lparr>compliance_rate := Some (to_double (50 / 100))\<rparr>)\<rparr>) = ''50%'' \<and>
   compliance_pill_label (blank_state\<lparr>visionResult :=
       Some (sample_vision\<lparr>compliance_rate := Some (to_double (50 / 100))\<rparr>)\<rparr>) = ''Critical'' \<and>
   compliance_card_text (blank_state\<lparr>visionResult :=
       Some (sample_vision\<lparr>compliance_rate := Some (to_double (285 / 1000))\<rparr>)\<rparr>) = ''28%'' \<and>
   compliance_pill_label (blank_state\<lparr>visionResult :=
       Some (sample_vision\<lparr>compliance_rate := Some (to_double (285 / 1000))\<rparr>)\<rparr>) = ''Critical'' \<and>
   compliance_card_text (blank_state\<lparr>visionResult :=
       Some (sample_vision\<lparr>compliance_rate := Some (to_double (695 / 1000))\<rparr>)\<rparr>) = ''70%'' \<and>
   compliance_pill_label (blank_state\<lparr>visionResult :=
       Some (sample_vision\<lparr>compliance_rate := Some (to_double (695 / 1000))\<rparr>)\<rparr>) = ''Monitor''"
proof -
  let ?v75 = "sample_vision\<lparr>compliance_rate := Some (to_double (75 / 100))\<rparr>"
  let ?v50 = "sample_vision\<lparr>compliance_rate := Some (to_double (50 / 100))\<rparr>"
  have h95: "visionResult (blank_state\<lparr>visionResult := Some sample_vision\<rparr>) = Some sample_vision \<and>
      compliance_rate sample_vision = Some (to_double (95 / 100))"
    by (simp add: sample_vision_def)
  have h75: "visionResult (blank_state\<lparr>visionResult := Some ?v75\<rparr>) = Some ?v75 \<and>
      compliance_rate ?v75 = Some (to_double (75 / 100))"
    by simp
  have h50: "visionResult (blank_state\<lparr>visionResult := Some ?v50\<rparr>) = Some ?v50 \<and>
      compliance_rate ?v50 = Some (to_double (50 / 100))"
    by simp
  have g95: "number_ge (Math_round (number_times (to_double (95 / 100)) (Finite 100))) (Finite 90)"
    unfolding pct_095 by simp
  have g75: "number_ge (Math_round (number_times (to_double (75 / 100)) (Finite 100))) (Finite 70) \<and>
      number_less (Math_round (number_times (to_double (75 / 100)) (Finite 100))) (Finite 90)"
    unfolding pct_075 by simp
  have g50: "number_less (Math_round (number_times (to_double (50 / 100)) (Finite 100))) (Finite 70)"
    unfolding pct_050 by simp
  have w95:
    "compliance_card_text (blank_state\<lparr>visionResult := Some sample_vision\<rparr>) = ''95%'' \<and>
     compliance_pill_label (blank_state\<lparr>visionResult := Some sample_vision\<rparr>) = ''On Track''"
    using h95 g95
      compliance_percentage_and_tone [where st = "blank_state\<lparr>visionResult := Some sample_vision\<rparr>"
        and d = sample_vision and r = "to_double (95 / 100)", unfolded Let_def]
    by blast
  have w75:
    "compliance_card_text (blank_state\<lparr>visionResult := Some ?v75\<rparr>) = ''75%'' \<and>
     compliance_pill_label (blank_state\<lparr>visionResult := Some ?v75\<rparr>) = ''Monitor''"
    using h75 g75
      compliance_percentage_and_tone [where st = "blank_state\<lparr>visionResult := Some ?v75\<rparr>"
        and d = ?v75 and r = "to_double (75 / 100)", unfolded Let_def]
    by blast
  have w50:
    "compliance_card_text (blank_state\<lparr>visionResult := Some ?v50\<rparr>) = ''50%'' \<and>
     compliance_pill_label (blank_state\<lparr>visionResult := Some ?v50\<rparr>) = ''Critical''"
    using h50 g50
      compliance_percentage_and_tone [where st = "blank_state\<lparr>visionResult := Some ?v50\<rparr>"
        and d = ?v50 and r = "to_double (50 / 100)", unfolded Let_def]
    by blast
  let ?v285 = "sample_vision\<lparr>compliance_rate := Some (to_double (285 / 1000))\<rparr>"
  let ?v695 = "sample_vision\<lparr>compliance_rate := Some (to_double (695 / 1000))\<rparr>"
  have h285: "visionResult (blank_state\<lparr>visionResult := Some ?v285\<rparr>) = Some ?v285 \<and>
      compliance_rate ?v285 = Some (to_double (285 / 1000))"
    by simp
  have h695: "visionResult (blank_state\<lparr>visionResult := Some ?v695\<rparr>) = Some ?v695 \<and>
      compliance_rate ?v695 = Some (to_double (695 / 1000))"
    by simp
  have g285: "number_less (Math_round (number_times (to_double (285 / 1000)) (Finite 100))) (Finite 70)"
    unfolding pct_0285 by simp
  have g695: "number_ge (Math_round (number_times (to_double (695 / 1000)) (Finite 100))) (Finite 70) \<and>
      number_less (Math_round (number_times (to_double (695 / 1000)) (Finite 100))) (Finite 90)"
    unfolding pct_0695 by simp
  have w285:
    "compliance_card_text (blank_state\<lparr>visionResult := Some ?v285\<rparr>) = ''28%'' \<and>
     compliance_pill_label (blank_state\<lparr>visionResult := Some ?v285\<rparr>) = ''Critical''"
    using h285 g285
      compliance_percentage_and_tone [where st = "blank_state\<lparr>visionResult := Some ?v285\<rparr>"
        and d = ?v285 and r = "to_double (285 / 1000)", unfolded Let_def]
    by blast
  have w695:
    "compliance_card_text (blank_state\<lparr>visionResult := Some ?v695\<rparr>) = ''70%'' \<and>
     compliance_pill_label (blank_state\<lparr>visionResult := Some ?v695\<rparr>) = ''Monitor''"
    using h695 g695
      compliance_percentage_and_tone [where st = "blank_state\<lparr>visionResult := Some ?v695\<rparr>"
        and d = ?v695 and r = "to_double (695 / 1000)", unfolded Let_def]
    by blast
  from w95 w75 w50 w285 w695 show ?thesis by blast
qed

text \<open>
  C6. After a successful imagery response: if the body carries an overlay reference
  (a non-empty server-relative path), the stored and displayed overlay is the base URL
  followed by that path; if the body carries none, the stored overlay is none and the
  placeholder is shown instead of an image.
\<close>

theorem overlay_resolved_against_base:
  "visionFile st = Some f \<and>
   netV (vision_request env f) = Resolves (Response True t (Resolves (Some v))) \<longrightarrow>
     (\<forall>u. overlay_url v = Some u \<and> u \<noteq> [] \<longrightarrow>
        visionOverlay (snd (submitVision env netV st)) = Some (API_BASE env @ u) \<and>
        overlay_area (snd (submitVision env netV st)) = Img (API_BASE env @ u)) \<and>
     (overlay_url v = None \<longrightarrow>
        visionOverlay (snd (submitVision env netV st)) = None \<and>
        overlay_area (snd (submitVision env netV st)) = NoOverlayYet)"
  by (auto simp: submitVision_def Let_def read_json_def resolve_overlay_def overlay_area_def)

theorem overlay_resolved_against_base_witness:
  "visionOverlay (snd (submitVision (Some ''https://api.example.com'') (net_200 sample_vision)
      filled_state)) = Some ''https://api.example.com/overlays/x.png'' \<and>
   overlay_area (snd (submitVision (Some ''https://api.example.com'') (net_200 sample_vision)
      filled_state)) = Img ''https://api.example.com/overlays/x.png'' \<and>
   visionOverlay (snd (submitVision (Some ''https://api.example.com'')
      (net_200 (sample_vision\<lparr>overlay_url := None\<rparr>)) filled_state)) = None \<and>
   overlay_area (snd (submitVision (Some ''https://api.example.com'')
      (net_200 (sample_vision\<lparr>overlay_url := None\<rparr>)) filled_state)) = NoOverlayYet"
  using filled_inputs(2)
    overlay_resolved_against_base [where st = filled_state and f = sample_file
      and env = "Some ''https://api.example.com''" and netV = "net_200 sample_vision"
      and t = "Resolves []" and v = sample_vision]
    overlay_resolved_against_base [where st = filled_state and f = sample_file
      and env = "Some ''https://api.example.com''"
      and netV = "net_200 (sample_vision\<lparr>overlay_url := None\<rparr>)"
      and t = "Resolves []" and v = "sample_vision\<lparr>overlay_url := None\<rparr>"]
  by (simp add: net_200_def sample_vision_def API_BASE_def or_else_def)

text \<open>
  C8. One configured value is the base of every address: the base is the configured
  value when there is one (a non-empty string) and \<open>http://localhost:8000\<close> when there
  is none; the four requests go to the base followed by \<open>/predict-delay\<close>,
  \<open>/analyze-image\<close> and \<open>/extract\<close>, and overlay and export references are resolved
  against the same base.
\<close>

theorem single_base_url:
  "(\<forall>r \<in> set (requests (fst (submitBrain env JSON_parse netB st))).
      url r = API_BASE env @ ''/predict-delay'') \<and>
   (\<forall>r \<in> set (requests (fst (submitVision env netV st))).
      url r = API_BASE env @ ''/analyze-image'') \<and>
   (\<forall>r \<in> set (requests (fst (submitScribeFile env netS st))).
      url r = API_BASE env @ ''/extract'') \<and>
   (\<forall>r \<in> set (requests (fst (submitScribeText env netS st))).
      url r = API_BASE env @ ''/extract'') \<and>
   (\<forall>u. overlay_url v = Some u \<and> u \<noteq> [] \<longrightarrow>
      resolve_overlay env (Some v) = Some (API_BASE env @ u)) \<and>
   (\<forall>s u. scribeResult st = Some s \<and> export_csv_url s = Some u \<and> u \<noteq> [] \<longrightarrow>
      export_link env st = Some (API_BASE env @ u)) \<and>
   API_BASE None = ''http://localhost:8000'' \<and>
   (\<forall>b. env = Some b \<and> b \<noteq> [] \<longrightarrow> API_BASE env = b)"
proof (intro conjI)
  show "\<forall>r \<in> set (requests (fst (submitBrain env JSON_parse netB st))).
      url r = API_BASE env @ ''/predict-delay''"
    by (auto simp: brain_requests brain_request_def split: option.splits)
  show "\<forall>r \<in> set (requests (fst (submitVision env netV st))).
      url r = API_BASE env @ ''/analyze-image''"
    by (auto simp: vision_requests vision_request_def split: option.splits)
  show "\<forall>r \<in> set (requests (fst (submitScribeFile env netS st))).
      url r = API_BASE env @ ''/extract''"
    by (auto simp: scribe_file_requests scribe_file_request_def split: option.splits)
  show "\<forall>r \<in> set (requests (fst (submitScribeText env netS st))).
      url r = API_BASE env @ ''/extract''"
    by (simp add: scribe_text_requests scribe_text_request_def)
  show "\<forall>u. overlay_url v = Some u \<and> u \<noteq> [] \<longrightarrow>
      resolve_overlay env (Some v) = Some (API_BASE env @ u)"
    by (simp add: resolve_overlay_def)
  show "\<forall>s u. scribeResult st = Some s \<and> export_csv_url s = Some u \<and> u \<noteq> [] \<longrightarrow>
      export_link env st = Some (API_BASE env @ u)"
    by (simp add: export_link_def)
  show "API_BASE None = ''http://localhost:8000''"
    by (simp add: API_BASE_def)
  show "\<forall>b. env = Some b \<and> b \<noteq> [] \<longrightarrow> API_BASE env = b"
    by (simp add: API_BASE_def or_else_def)
qed

theorem single_base_url_witness:
  "map url (requests (fst (submitBrain None parse_braces net_down filled_state)))
     = [''http://localhost:8000/predict-delay''] \<and>
   map url (requests (fst (submitVision None net_down filled_state)))
     = [''http://localhost:8000/analyze-image''] \<and>
   map url (requests (fst (submitScribeFile None net_down filled_state)))
     = [''http://localhost:8000/extract''] \<and>
   map url (requests (fst (submitScribeText None net_down filled_state)))
     = [''http://localhost:8000/extract''] \<and>
   resolve_overlay None (Some sample_vision) = Some ''http://localhost:8000/overlays/x.png'' \<and>
   export_link None (filled_state\<lparr>scribeResult := Some sample_scribe\<rparr>)
     = Some ''http://localhost:8000/exports/report.csv'' \<and>
   map url (requests (fst (submitBrain (Some ''https://pulse.example.org'') parse_braces net_down
       filled_state)))
     = [''https://pulse.example.org/predict-delay''] \<and>
   map url (requests (fst (submitVision (Some ''https://pulse.example.org'') net_down filled_state)))
     = [''https://pulse.example.org/analyze-image''] \<and>
   map url (requests (fst (submitScribeFile (Some ''https://pulse.example.org'') net_down
       filled_state)))
     = [''https://pulse.example.org/extract''] \<and>
   map url (requests (fst (submitScribeText (Some ''https://pulse.example.org'') net_down
       filled_state)))
     = [''https://pulse.example.org/extract''] \<and>
   resolve_overlay (Some ''https://pulse.example.org'') (Some sample_vision)
     = Some ''https://pulse.example.org/overlays/x.png'' \<and>
   export_link (Some ''https://pulse.example.org'') (filled_state\<lparr>scribeResult := Some sample_scribe\<rparr>)
     = Some ''https://pulse.example.org/exports/report.csv''"
proof -
  let ?st = "filled_state\<lparr>scribeResult := Some sample_scribe\<rparr>"
  let ?base = "Some ''https://pulse.example.org''"
  have reqs:
    "\<And>env. requests (fst (submitBrain env parse_braces net_down filled_state))
       = [brain_request env (JObject [])]"
    "\<And>env. requests (fst (submitVision env net_down filled_state))
       = [vision_request env sample_file]"
    "\<And>env. requests (fst (submitScribeFile env net_down filled_state))
       = [scribe_file_request env sample_file]"
    "\<And>env. requests (fst (submitScribeText env net_down filled_state))
       = [scribe_text_request env (scribeText filled_state)]"
    using filled_inputs
    by (simp_all add: brain_requests vision_requests scribe_file_requests scribe_text_requests)
  have results:
    "overlay_url sample_vision = Some ''/overlays/x.png''"
    "scribeResult ?st = Some sample_scribe"
    "export_csv_url sample_scribe = Some ''/exports/report.csv''"
    by (simp_all add: sample_vision_def sample_scribe_def)
  have default:
    "map url (requests (fst (submitBrain None parse_braces net_down filled_state)))
       = [''http://localhost:8000/predict-delay''] \<and>
     map url (requests (fst (submitVision None net_down filled_state)))
       = [''http://localhost:8000/analyze-image''] \<and>
     map url (requests (fst (submitScribeFile None net_down filled_state)))
       = [''http://localhost:8000/extract''] \<and>
     map url (requests (fst (submitScribeText None net_down filled_state)))
       = [''http://localhost:8000/extract''] \<and>
     resolve_overlay None (Some sample_vision) = Some ''http://localhost:8000/overlays/x.png'' \<and>
     export_link None ?st = Some ''http://localhost:8000/exports/report.csv''"
    using reqs results
      single_base_url [where env = None and JSON_parse = parse_braces and netB = net_down
        and netV = net_down and netS = net_down and st = filled_state and v = sample_vision]
      single_base_url [where env = None and JSON_parse = parse_braces and netB = net_down
        and netV = net_down and netS = net_down and st = ?st and v = sample_vision]
    by simp
  have configured:
    "map url (requests (fst (submitBrain ?base parse_braces net_down filled_state)))
       = [''https://pulse.example.org/predict-delay''] \<and>
     map url (requests (fst (submitVision ?base net_down filled_state)))
       = [''https://pulse.example.org/analyze-image''] \<and>
     map url (requests (fst (submitScribeFile ?base net_down filled_state)))
       = [''https://pulse.example.org/extract''] \<and>
     map url (requests (fst (submitScribeText ?base net_down filled_state)))
       = [''https://pulse.example.org/extract''] \<and>
     resolve_overlay ?base (Some sample_vision) = Some ''https://pulse.example.org/overlays/x.png'' \<and>
     export_link ?base ?st = Some ''https://pulse.example.org/exports/report.csv''"
    using reqs results
      single_base_url [where env = ?base and JSON_parse = parse_braces and netB = net_down
        and netV = net_down and netS = net_down and st = filled_state and v = sample_vision]
      single_base_url [where env = ?base and JSON_parse = parse_braces and netB = net_down
        and netV = net_down and netS = net_down and st = ?st and v = sample_vision]
    by simp
  from default configured show ?thesis by blast
qed

text \<open>
  C9. With an empty payload text the risk panel reports no JSON error: the text \<open>{}\<close> is
  parsed in its place, and the empty object is the body of the one request sent.
\<close>

theorem empty_payload_sends_empty_object:
  "brainJson st = [] \<and> JSON_parse ''{}'' = Some (JObject []) \<longrightarrow>
     requests (fst (submitBrain env JSON_parse netB st)) = [brain_request env (JObject [])] \<and>
     body (brain_request env (JObject [])) = JsonBody (JObject []) \<and>
     ''JSON is invalid. Please fix the payload and try again.''
       \<notin> set (alerts (fst (submitBrain env JSON_parse netB st)))"
  by (auto simp: submitBrain_def Let_def or_else_def requests_simps alerts_simps
      brain_request_def split: promise.splits)

theorem empty_payload_sends_empty_object_witness:
  "requests (fst (submitBrain None parse_braces net_down blank_state))
     = [brain_request None (JObject [])] \<and>
   body (brain_request None (JObject [])) = JsonBody (JObject []) \<and>
   ''JSON is invalid. Please fix the payload and try again.''
     \<notin> set (alerts (fst (submitBrain None parse_braces net_down blank_state)))"
proof -
  have "brainJson blank_state = [] \<and> parse_braces ''{}'' = Some (JObject [])"
    by (simp add: blank_state_def parse_braces_def)
  then show ?thesis
    using empty_payload_sends_empty_object [where st = blank_state and JSON_parse = parse_braces
      and env = None and netB = net_down]
    by blast
qed

text \<open>
  C10. The extraction text path sends the text as typed: for every text that is not
  empty after trimming, the one request sent has the JSON body \<open>{text: scribeText}\<close>
  with the untrimmed content of the text area.
\<close>

theorem text_sent_untrimmed:
  "trim (scribeText st) \<noteq> [] \<longrightarrow>
     requests (fst (submitScribeText env netS st)) = [scribe_text_request env (scribeText st)] \<and>
     body (scribe_text_request env (scribeText st))
       = JsonBody (JObject [(''text'', JString (scribeText st))])"
  by (simp add: scribe_text_requests scribe_text_request_def)

theorem text_sent_untrimmed_witness:
  "trim ''  crew 42  '' = ''crew 42'' \<and>
   map body (requests (fst (submitScribeText None net_down filled_state)))
     = [JsonBody (JObject [(''text'', JString ''  crew 42  '')])]"
proof -
  have t: "scribeText filled_state = ''  crew 42  ''"
    by (simp add: filled_state_def)
  have "trim (scribeText filled_state) \<noteq> []"
    by (rule filled_inputs)
  with text_sent_untrimmed [where st = filled_state and env = None and netS = net_down]
  have "requests (fst (submitScribeText None net_down filled_state))
          = [scribe_text_request None (scribeText filled_state)]"
    and "body (scribe_text_request None (scribeText filled_state))
          = JsonBody (JObject [(''text'', JString (scribeText filled_state))])"
    by blast+
  then show ?thesis
    by (simp add: t trim_padded)
qed

text \<open>
  C7. A local validation failure is reported by a blocking notice before the handler
  returns in the risk panel (payload that does not parse), the imagery panel (no file)
  and the extraction file path (no file). The extraction text path returns without any
  notice when the text is empty or whitespace-only.
\<close>

theorem validation_notices:
  "(JSON_parse (or_else (brainJson st) ''{}'') = None \<longrightarrow>
      fst (submitBrain env JSON_parse netB st)
        = [PreventDefault, Alert ''JSON is invalid. Please fix the payload and try again.'']) \<and>
   (visionFile st = None \<longrightarrow>
      fst (submitVision env netV st)
        = [PreventDefault, Alert ''Please choose an image file first.'']) \<and>
   (scribeFile st = None \<longrightarrow>
      fst (submitScribeFile env netS st)
        = [PreventDefault, Alert ''Please select a PDF or text file.'']) \<and>
   (trim (scribeText st) = [] \<longrightarrow>
      fst (submitScribeText env netS st) = [PreventDefault])"
  by (simp add: submitBrain_def submitVision_def submitScribeFile_def submitScribeText_def)

theorem validation_notices_witness:
  "fst (submitBrain None parse_braces net_down (blank_state\<lparr>brainJson := ''{oops''\<rparr>))
     = [PreventDefault, Alert ''JSON is invalid. Please fix the payload and try again.''] \<and>
   fst (submitVision None net_down blank_state)
     = [PreventDefault, Alert ''Please choose an image file first.''] \<and>
   fst (submitScribeFile None net_down blank_state)
     = [PreventDefault, Alert ''Please select a PDF or text file.''] \<and>
   fst (submitScribeText None net_down blank_state) = [PreventDefault]"
proof -
  have brain: "parse_braces (or_else (brainJson (blank_state\<lparr>brainJson := ''{oops''\<rparr>)) ''{}'') = None"
    by (simp add: parse_braces_def or_else_def)
  have rest: "visionFile blank_state = None" "scribeFile blank_state = None"
    "trim (scribeText blank_state) = []"
    by (simp_all add: blank_state_def trim_empty)
  have w1: "fst (submitBrain None parse_braces net_down (blank_state\<lparr>brainJson := ''{oops''\<rparr>))
      = [PreventDefault, Alert ''JSON is invalid. Please fix the payload and try again.'']"
    using brain
      validation_notices [where st = "blank_state\<lparr>brainJson := ''{oops''\<rparr>"
        and JSON_parse = parse_braces and env = None and netB = net_down]
    by blast
  have w2: "fst (submitVision None net_down blank_state)
       = [PreventDefault, Alert ''Please choose an image file first.''] \<and>
     fst (submitScribeFile None net_down blank_state)
       = [PreventDefault, Alert ''Please select a PDF or text file.''] \<and>
     fst (submitScribeText None net_down blank_state) = [PreventDefault]"
    using rest
      validation_notices [where st = blank_state and JSON_parse = parse_braces and env = None
        and netV = net_down and netS = net_down]
    by blast
  from w1 w2 show ?thesis by blast
qed

theorem silent_text_path_counterexample:
  "trim (scribeText (blank_state\<lparr>scribeText := ''   ''\<rparr>)) = [] \<and>
   alerts (fst (submitScribeText None net_down (blank_state\<lparr>scribeText := ''   ''\<rparr>))) = []"
  by (simp add: submitScribeText_def trim_spaces alerts_simps)

end
